theory Spec2Isabelle
  imports Main
begin

section \<open>Go runtime values: panics and errors\<close>

text \<open>
  A Go call either returns or panics. The functions of configuration.go return a value
  next to an \<open>error\<close>; a run-time panic (an index out of range) returns nothing.
\<close>

datatype 'a exec = Panic | Done 'a

text \<open>
  The error values configuration.go can return: its two \<open>fmt.Errorf\<close> messages, and the
  errors of \<open>time.Parse\<close> and \<open>strconv.Atoi\<close>, each with the text it was raised on.
\<close>

datatype error =
    InvalidTimestamp string
  | ParseError string
  | NumError string
  | NotAssociated int

section \<open>Package time\<close>

text \<open>
  A \<open>time.Time\<close> is an instant with a location. The instant is kept as nanoseconds since
  the Unix epoch (an unbounded integer), the location as a fixed offset in seconds east
  of UTC (\<open>time.UTC\<close> is offset 0, \<open>time.FixedZone\<close> any other); locations with
  daylight-saving transitions are outside this model. A \<open>time.Duration\<close> is a signed
  64-bit count of nanoseconds.
\<close>

record time_Time =
  unixNano :: int
  loc :: int

definition time_Minute :: int where
  "time_Minute = 60000000000"

definition wrap64 :: "int \<Rightarrow> int" where
  "wrap64 x = (x + 2 ^ 63) mod 2 ^ 64 - 2 ^ 63"

definition Before :: "time_Time \<Rightarrow> time_Time \<Rightarrow> bool" where
  "Before t u = (unixNano t < unixNano u)"

definition Equal :: "time_Time \<Rightarrow> time_Time \<Rightarrow> bool" where
  "Equal t u = (unixNano t = unixNano u)"

definition Add :: "time_Time \<Rightarrow> int \<Rightarrow> time_Time" where
  "Add t d = t\<lparr>unixNano := unixNano t + d\<rparr>"

definition norm :: "int \<Rightarrow> int \<Rightarrow> int \<Rightarrow> int \<times> int" where
  "norm hi lo base =
     (let (hi1, lo1) = (if lo < 0 then (let n = (- lo - 1) div base + 1
                                        in (hi - n, lo + n * base))
                        else (hi, lo))
      in if lo1 \<ge> base then (let n = lo1 div base in (hi1 + n, lo1 - n * base))
         else (hi1, lo1))"

definition isLeap :: "int \<Rightarrow> bool" where
  "isLeap year = (year mod 4 = 0 \<and> (year mod 100 \<noteq> 0 \<or> year mod 400 = 0))"

definition daysBefore :: "int list" where
  "daysBefore = [0, 31, 59, 90, 120, 151, 181, 212, 243, 273, 304, 334, 365]"

text \<open>Days from 0001-01-01 to the first day of \<open>year\<close>, by 400-, 100- and 4-year cycles.\<close>

definition daysSinceEpoch :: "int \<Rightarrow> int" where
  "daysSinceEpoch year =
     (let y = year - 1;
          n400 = y div 400; y1 = y - 400 * n400;
          n100 = y1 div 100; y2 = y1 - 100 * n100;
          n4 = y2 div 4; y3 = y2 - 4 * n4
      in 146097 * n400 + 36524 * n100 + 1461 * n4 + 365 * y3)"

text \<open>Seconds from 0001-01-01 00:00:00 UTC to the Unix epoch.\<close>

definition unixToInternal :: int where
  "unixToInternal = 62135596800"

text \<open>The zero \<open>time.Time\<close> is January 1 of year 1, 00:00:00 UTC.\<close>

definition zeroTime :: time_Time where
  "zeroTime = \<lparr>unixNano = - unixToInternal * 1000000000, loc = 0\<rparr>"

text \<open>\<open>time.Date(year, month, day, hour, min, sec, nsec, loc)\<close>.\<close>

definition time_Date :: "int \<Rightarrow> int \<Rightarrow> int \<Rightarrow> int \<Rightarrow> int \<Rightarrow> int \<Rightarrow> int \<Rightarrow> int \<Rightarrow> time_Time" where
  "time_Date year month day hour minute sec nsec l =
     (let (year1, m) = norm year (month - 1) 12;
          month1 = m + 1;
          (sec1, nsec1) = norm sec nsec 1000000000;
          (min1, sec2) = norm minute sec1 60;
          (hour1, min2) = norm hour min1 60;
          (day1, hour2) = norm day hour1 24;
          d = daysSinceEpoch year1 + daysBefore ! nat (month1 - 1)
              + (if isLeap year1 \<and> month1 \<ge> 3 then 1 else 0)
              + (day1 - 1);
          abs = d * 86400 + hour2 * 3600 + min2 * 60 + sec2;
          unix = abs - unixToInternal - l
      in \<lparr>unixNano = unix * 1000000000 + nsec1, loc = l\<rparr>)"

text \<open>Seconds since 0001-01-01 00:00:00 on the wall clock of the time's location.\<close>

definition abs_sec :: "time_Time \<Rightarrow> int" where
  "abs_sec t = unixNano t div 1000000000 + loc t + unixToInternal"

definition nsec_of :: "time_Time \<Rightarrow> int" where
  "nsec_of t = unixNano t mod 1000000000"

text \<open>The method \<open>t.Date()\<close>: year, month and day of the wall clock.\<close>

definition Date :: "time_Time \<Rightarrow> int \<times> int \<times> int" where
  "Date t =
     (let d = abs_sec t div 86400;
          n400 = d div 146097; d1 = d - 146097 * n400;
          n100a = d1 div 36524; n100 = n100a - n100a div 4; d2 = d1 - 36524 * n100;
          n4 = d2 div 1461; d3 = d2 - 1461 * n4;
          n1a = d3 div 365; n1 = n1a - n1a div 4; d4 = d3 - 365 * n1;
          year = 400 * n400 + 100 * n100 + 4 * n4 + n1 + 1;
          yday = d4
      in if isLeap year \<and> yday = 59 then (year, 2, 29)
         else (let day = (if isLeap year \<and> yday > 59 then yday - 1 else yday);
                   month = day div 31;
                   end = daysBefore ! nat (month + 1)
               in if day \<ge> end then (year, month + 2, day - end + 1)
                  else (year, month + 1, day - daysBefore ! nat month + 1)))"

definition Hour :: "time_Time \<Rightarrow> int" where
  "Hour t = (abs_sec t mod 86400) div 3600"

definition Minute :: "time_Time \<Rightarrow> int" where
  "Minute t = (abs_sec t mod 3600) div 60"

definition Second :: "time_Time \<Rightarrow> int" where
  "Second t = abs_sec t mod 60"

text \<open>\<open>t.AddDate(years, months, days)\<close>: the same wall clock on the shifted date.\<close>

definition AddDate :: "time_Time \<Rightarrow> int \<Rightarrow> int \<Rightarrow> int \<Rightarrow> time_Time" where
  "AddDate t years months days =
     (let (year, month, day) = Date t
      in time_Date (year + years) (month + months) (day + days)
           (Hour t) (Minute t) (Second t) (nsec_of t) (loc t))"

subsection \<open>time.Parse with the layout "15:04"\<close>

definition isDigit :: "char \<Rightarrow> bool" where
  "isDigit c = (c \<in> set ''0123456789'')"

definition digitVal :: "char \<Rightarrow> int" where
  "digitVal c = int (of_char c) - 48"

text \<open>
  \<open>getnum(s, fixed)\<close> reads one or two decimal digits (exactly two when \<open>fixed\<close>) and
  returns the number and the rest of the string.
\<close>

fun getnum :: "string \<Rightarrow> bool \<Rightarrow> (int \<times> string) option" where
  "getnum [] fixed = None"
| "getnum [a] fixed =
     (if \<not> isDigit a then None else if fixed then None else Some (digitVal a, []))"
| "getnum (a # b # r) fixed =
     (if \<not> isDigit a then None
      else if \<not> isDigit b then (if fixed then None else Some (digitVal a, b # r))
      else Some (digitVal a * 10 + digitVal b, r))"

text \<open>
  \<open>time.Parse("15:04", value)\<close>: an hour of one or two digits below 24, a colon, a minute
  of two digits below 60, and nothing after it. The result is that clock time on
  January 1 of year 0, UTC.
\<close>

definition time_Parse :: "string \<Rightarrow> error + time_Time" where
  "time_Parse v =
     (case getnum v False of
        None \<Rightarrow> Inl (ParseError v)
      | Some (hour, v1) \<Rightarrow>
          if hour < 0 \<or> 24 \<le> hour then Inl (ParseError v)
          else (case v1 of
                  [] \<Rightarrow> Inl (ParseError v)
                | c # v2 \<Rightarrow>
                    if c \<noteq> CHR '':'' then Inl (ParseError v)
                    else (case getnum v2 True of
                            None \<Rightarrow> Inl (ParseError v)
                          | Some (minute, v3) \<Rightarrow>
                              if minute < 0 \<or> 60 \<le> minute then Inl (ParseError v)
                              else if v3 \<noteq> [] then Inl (ParseError v)
                              else Inr (time_Date 0 1 1 hour minute 0 0 0))))"

subsection \<open>strconv.Atoi\<close>

definition decimal :: "string \<Rightarrow> int" where
  "decimal s = foldl (\<lambda>n c. 10 * n + digitVal c) 0 s"

text \<open>
  \<open>strconv.Atoi(s)\<close>: an optional sign and at least one decimal digit; the value must fit
  a signed 64-bit \<open>int\<close>.
\<close>

definition Atoi :: "string \<Rightarrow> error + int" where
  "Atoi s =
     (let neg = (s \<noteq> [] \<and> hd s = CHR ''-'');
          body = (if s \<noteq> [] \<and> (hd s = CHR ''+'' \<or> hd s = CHR ''-'') then tl s else s)
      in if body = [] \<or> \<not> list_all isDigit body then Inl (NumError s)
         else (let n = decimal body
               in if \<not> neg \<and> n > 2 ^ 63 - 1 then Inl (NumError s)
                  else if neg \<and> n > 2 ^ 63 then Inl (NumError s)
                  else Inr (if neg then - n else n)))"

section \<open>The regular expression of AsTimestamp2\<close>

text \<open>
  \<^verbatim>\<open>(?P<time>\d{1,2}:\d\d)|(?P<spec>(sunrise|sunset)(\s*(\+|-)\s*(\d+)\s*m.*){0,1})\<close>

  Go's \<open>regexp\<close> finds the leftmost match and, at that position, the match a
  backtracking search prefers: the first alternative before the second, and greedy
  repetitions as long as possible. The expression is not anchored. The groups are
  1 \<open>time\<close>, 2 \<open>spec\<close>, 3 the keyword, 4 the optional offset, 5 its sign, 6 its digits;
  a group that took no part in the match is the empty string.
\<close>

text \<open>The class \<open>\s\<close>: tab, newline, form feed, carriage return, space.\<close>

definition isSpace :: "char \<Rightarrow> bool" where
  "isSpace c = (c \<in> set [CHR 0x09, CHR 0x0A, CHR 0x0C, CHR 0x0D, CHR '' ''])"

text \<open>\<^verbatim>\<open>\d{1,2}:\d\d\<close> at the start of the string: two digits are tried before one.\<close>

definition matchTime :: "string \<Rightarrow> string option" where
  "matchTime s =
     (if length s \<ge> 5 \<and> isDigit (s ! 0) \<and> isDigit (s ! 1) \<and> s ! 2 = CHR '':''
         \<and> isDigit (s ! 3) \<and> isDigit (s ! 4) then Some (take 5 s)
      else if length s \<ge> 4 \<and> isDigit (s ! 0) \<and> s ! 1 = CHR '':''
         \<and> isDigit (s ! 2) \<and> isDigit (s ! 3) then Some (take 4 s)
      else None)"

text \<open>
  \<^verbatim>\<open>\s*(\+|-)\s*(\d+)\s*m.*\<close> at the start of the string, returning the text of the
  groups 4, 5 and 6. Each repetition is followed by a character outside its class, so
  the longest run is the only one that can match; \<open>.\<close> is any character but a newline.
\<close>

definition matchOffset :: "string \<Rightarrow> (string \<times> string \<times> string) option" where
  "matchOffset s =
     (let ws1 = takeWhile isSpace s; r1 = dropWhile isSpace s
      in case r1 of
           [] \<Rightarrow> None
         | sg # r2 \<Rightarrow>
             if sg \<noteq> CHR ''+'' \<and> sg \<noteq> CHR ''-'' then None
             else (let ws2 = takeWhile isSpace r2; r3 = dropWhile isSpace r2;
                       ds = takeWhile isDigit r3; r4 = dropWhile isDigit r3;
                       ws3 = takeWhile isSpace r4; r5 = dropWhile isSpace r4
                   in if ds = [] then None
                      else (case r5 of
                              [] \<Rightarrow> None
                            | m # r6 \<Rightarrow>
                                if m \<noteq> CHR ''m'' then None
                                else Some (ws1 @ [sg] @ ws2 @ ds @ ws3 @ [m]
                                             @ takeWhile (\<lambda>c. c \<noteq> CHR 0x0A) r6,
                                           [sg], ds))))"

fun stripPrefix :: "string \<Rightarrow> string \<Rightarrow> string option" where
  "stripPrefix [] s = Some s"
| "stripPrefix (p # ps) [] = None"
| "stripPrefix (p # ps) (c # cs) = (if p = c then stripPrefix ps cs else None)"

text \<open>The second alternative at the start of the string: the groups 2 to 6.\<close>

definition matchSpec :: "string \<Rightarrow> string list option" where
  "matchSpec s =
     (let kw = (case stripPrefix ''sunrise'' s of
                  Some r \<Rightarrow> Some (''sunrise'', r)
                | None \<Rightarrow> (case stripPrefix ''sunset'' s of
                             Some r \<Rightarrow> Some (''sunset'', r)
                           | None \<Rightarrow> None))
      in case kw of
           None \<Rightarrow> None
         | Some (k, r) \<Rightarrow>
             (case matchOffset r of
                Some (off, sg, ds) \<Rightarrow> Some [k @ off, k, off, sg, ds]
              | None \<Rightarrow> Some [k, k, [], [], []]))"

text \<open>The whole expression at the start of the string: the groups 0 to 6.\<close>

definition matchHere :: "string \<Rightarrow> string list option" where
  "matchHere s =
     (case matchTime s of
        Some t \<Rightarrow> Some [t, t, [], [], [], [], []]
      | None \<Rightarrow> (case matchSpec s of
                   Some gs \<Rightarrow> Some (hd gs # [] # gs)
                 | None \<Rightarrow> None))"

text \<open>
  \<open>re.FindStringSubmatch(s)\<close>: the groups of the leftmost match, or \<open>nil\<close> (the empty
  list) when the expression matches nowhere.
\<close>

fun FindStringSubmatch :: "string \<Rightarrow> string list" where
  "FindStringSubmatch [] = (case matchHere [] of Some gs \<Rightarrow> gs | None \<Rightarrow> [])"
| "FindStringSubmatch (c # r) =
     (case matchHere (c # r) of Some gs \<Rightarrow> gs | None \<Rightarrow> FindStringSubmatch r)"

section \<open>The configuration (configuration.go)\<close>

record Bridge =
  IP :: string
  Username :: string

text \<open>The \<open>float64\<close> coordinates are only handed to the sun calculator: their type is left open.\<close>

record 'f Location =
  Latitude :: 'f
  Longitude :: 'f

record WebInterface =
  Enabled :: bool
  Port :: int

record TimedColorTemperature =
  Time :: string
  ColorTemperature :: int
  Brightness :: int

record LightSchedule =
  Name :: string
  AssociatedDeviceIDs :: "int list"
  EnableWhenLightsAppear :: bool
  DefaultColorTemperature :: int
  DefaultBrightness :: int
  BeforeSunrise :: "TimedColorTemperature list"
  AfterSunset :: "TimedColorTemperature list"
  Schedule :: "TimedColorTemperature list"

record 'f Configuration =
  ConfigurationFile :: string
  Hash :: string
  Version :: int
  Bridge :: Bridge
  Location :: "'f Location"
  WebInterface :: WebInterface
  Schedules :: "LightSchedule list"

record TimeStamp =
  Time_ts :: time_Time
  ColorTemperature_ts :: int
  Brightness_ts :: int

datatype TimePointType = FixedTimePoint | Sunrise | Sunset

section \<open>AsTimestamp and AsTimestamp2\<close>

text \<open>
  Next to a non-nil error both functions return a TimeStamp holding \<open>time.Now()\<close>, which
  no caller reads; the model returns the error alone.
\<close>

definition AsTimestamp :: "TimedColorTemperature \<Rightarrow> time_Time \<Rightarrow> error + TimeStamp" where
  "AsTimestamp color referenceTime =
     (case time_Parse (Time color) of
        Inl err \<Rightarrow> Inl err
      | Inr t \<Rightarrow>
          (let (yr, mth, day) = Date referenceTime;
               targetTime = time_Date yr mth day (Hour t) (Minute t) (Second t) 0
                              (loc referenceTime)
           in Inr \<lparr>Time_ts = targetTime, ColorTemperature_ts = ColorTemperature color,
                   Brightness_ts = Brightness color\<rparr>))"

text \<open>
  \<open>matches[0]\<close> is read first: on the \<open>nil\<close> slice of a failed match that is an index out
  of range, a panic. A match has all seven groups. Where neither named group is
  non-empty the function falls through with the zero time and FixedTimePoint.
\<close>

definition AsTimestamp2 ::
  "TimedColorTemperature \<Rightarrow> time_Time \<Rightarrow> time_Time \<Rightarrow> time_Time
     \<Rightarrow> (error + TimeStamp \<times> TimePointType) exec" where
  "AsTimestamp2 color referenceTime sunrise sunset =
     (let matches = FindStringSubmatch (Time color)
      in if length matches = 0 then Panic
         else if length (matches ! 0) = 0 then Done (Inl (InvalidTimestamp (Time color)))
         else if length (matches ! 1) > 0 then
           (case time_Parse (Time color) of
              Inl err \<Rightarrow> Done (Inl err)
            | Inr t \<Rightarrow>
                (let (yr, mth, day) = Date referenceTime
                 in Done (Inr (\<lparr>Time_ts = time_Date yr mth day (Hour t) (Minute t) (Second t) 0
                                             (loc referenceTime),
                                 ColorTemperature_ts = ColorTemperature color,
                                 Brightness_ts = Brightness color\<rparr>, FixedTimePoint))))
         else if length (matches ! 2) > 0 then
           (let (retTime, timePointType) =
                  (if matches ! 3 = ''sunrise'' then (sunrise, Sunrise) else (sunset, Sunset))
            in if length (matches ! 4) > 0 then
                 (case Atoi (matches ! 6) of
                    Inl err \<Rightarrow> Done (Inl err)
                  | Inr minutes \<Rightarrow>
                      (let d = (if matches ! 5 = ''+'' then wrap64 (time_Minute * minutes)
                                else wrap64 (- time_Minute * minutes))
                       in Done (Inr (\<lparr>Time_ts = Add retTime d,
                                       ColorTemperature_ts = ColorTemperature color,
                                       Brightness_ts = Brightness color\<rparr>, timePointType))))
               else Done (Inr (\<lparr>Time_ts = retTime,
                                ColorTemperature_ts = ColorTemperature color,
                                Brightness_ts = Brightness color\<rparr>, timePointType)))
         else Done (Inr (\<lparr>Time_ts = zeroTime,
                          ColorTemperature_ts = ColorTemperature color,
                          Brightness_ts = Brightness color\<rparr>, FixedTimePoint)))"

section \<open>ComputeNewStyleSchedule\<close>

text \<open>
  The \<open>for ... range configSchedule\<close> loop, with the slice \<open>timeStamps\<close> built so far.
  An error of AsTimestamp2 leaves the loop and returns what was built with the error.
\<close>

fun ComputeNewStyleSchedule_loop ::
  "TimedColorTemperature list \<Rightarrow> TimeStamp list \<Rightarrow> time_Time \<Rightarrow> time_Time \<Rightarrow> time_Time
     \<Rightarrow> (TimeStamp list \<times> error option) exec" where
  "ComputeNewStyleSchedule_loop [] timeStamps sunrise sunset date = Done (timeStamps, None)"
| "ComputeNewStyleSchedule_loop (timedColorTemp # rest) timeStamps sunrise sunset date =
     (case AsTimestamp2 timedColorTemp date sunrise sunset of
        Panic \<Rightarrow> Panic
      | Done (Inl err) \<Rightarrow> Done (timeStamps, Some err)
      | Done (Inr (timestamp, timeType)) \<Rightarrow>
          if length timeStamps = 0 then Panic
          else (let previousTime = Time_ts (timeStamps ! (length timeStamps - 1));
                    clamped =
                      (if Before (Time_ts timestamp) previousTime
                          \<or> Equal (Time_ts timestamp) previousTime
                       then timestamp\<lparr>Time_ts := Add previousTime time_Minute\<rparr>
                       else timestamp)
                in ComputeNewStyleSchedule_loop rest (timeStamps @ [clamped])
                     sunrise sunset date))"

text \<open>
  \<open>configSchedule[len(configSchedule)-1]\<close> on an empty slice is an index out of range.
\<close>

definition ComputeNewStyleSchedule ::
  "TimedColorTemperature list \<Rightarrow> time_Time \<Rightarrow> time_Time \<Rightarrow> time_Time
     \<Rightarrow> (TimeStamp list \<times> error option) exec" where
  "ComputeNewStyleSchedule configSchedule sunrise sunset date =
     (if length configSchedule = 0 then Panic
      else (let lastSchedule = configSchedule ! (length configSchedule - 1)
            in case AsTimestamp2 lastSchedule (AddDate date 0 0 (- 1)) sunrise sunset of
                 Panic \<Rightarrow> Panic
               | Done (Inl err) \<Rightarrow> Done ([], Some err)
               | Done (Inr (previousDayLastTimestamp, timeType)) \<Rightarrow>
                   (case ComputeNewStyleSchedule_loop configSchedule [previousDayLastTimestamp]
                           sunrise sunset date of
                      Panic \<Rightarrow> Panic
                    | Done (timeStamps, Some err) \<Rightarrow> Done (timeStamps, Some err)
                    | Done (timeStamps, None) \<Rightarrow>
                        (case AsTimestamp2 (configSchedule ! 0) (AddDate date 0 0 1)
                                sunrise sunset of
                           Panic \<Rightarrow> Panic
                         | Done (Inl err) \<Rightarrow> Done (timeStamps, Some err)
                         | Done (Inr (nextDayFirstTimestamp, timeType2)) \<Rightarrow>
                             Done (timeStamps @ [nextDayFirstTimestamp], None)))))"

section \<open>lightScheduleForDay\<close>

text \<open>
  Modelled from the spec: the struct \<open>Schedule\<close> is declared outside configuration.go.
  Its fields are the ones lightScheduleForDay assigns: the end-of-day instant, the
  day's sunrise and sunset points, the unified sequence \<open>times\<close>, the two legacy
  sequences and the enable-when-lights-appear flag.
\<close>

record Schedule =
  endOfDay :: time_Time
  sunrise_sched :: TimeStamp
  sunset_sched :: TimeStamp
  times_sched :: "TimeStamp list"
  beforeSunrise :: "TimeStamp list"
  afterSunset :: "TimeStamp list"
  enableWhenLightsAppear :: bool

definition zeroTimeStamp :: TimeStamp where
  "zeroTimeStamp = \<lparr>Time_ts = zeroTime, ColorTemperature_ts = 0, Brightness_ts = 0\<rparr>"

text \<open>\<open>var schedule Schedule\<close>: every field at its zero value.\<close>

definition zeroSchedule :: Schedule where
  "zeroSchedule = \<lparr>endOfDay = zeroTime, sunrise_sched = zeroTimeStamp,
     sunset_sched = zeroTimeStamp, times_sched = [], beforeSunrise = [], afterSunset = [],
     enableWhenLightsAppear = False\<rparr>"

text \<open>
  Modelled from the spec: the interface \<open>SunStateCalculatorInterface\<close> is declared outside
  configuration.go. It supplies \<open>CalculateSunrise(date, latitude, longitude)\<close> and
  \<open>CalculateSunset(date, latitude, longitude)\<close>, each returning an instant.
\<close>

record 'f SunStateCalculator =
  CalculateSunrise :: "time_Time \<Rightarrow> 'f \<Rightarrow> 'f \<Rightarrow> time_Time"
  CalculateSunset :: "time_Time \<Rightarrow> 'f \<Rightarrow> 'f \<Rightarrow> time_Time"

text \<open>
  Modelled from the spec: the helper \<open>containsInt\<close> is defined outside configuration.go.
  It tells whether the light identifier occurs in the associated light-ID list.
\<close>

fun containsInt :: "int list \<Rightarrow> int \<Rightarrow> bool" where
  "containsInt [] e = False"
| "containsInt (a # s) e = (if a = e then True else containsInt s e)"

text \<open>
  The search loop over \<open>configuration.Schedules\<close>: the first candidate whose list contains
  the light ends the loop (\<open>break\<close>); \<open>None\<close> is \<open>found == false\<close>.
\<close>

fun findLightSchedule :: "LightSchedule list \<Rightarrow> int \<Rightarrow> LightSchedule option" where
  "findLightSchedule [] light = None"
| "findLightSchedule (candidate # rest) light =
     (if containsInt (AssociatedDeviceIDs candidate) light then Some candidate
      else findLightSchedule rest light)"

text \<open>
  The two legacy loops: an entry AsTimestamp rejects is skipped (\<open>continue\<close>), the others
  are appended in order.
\<close>

fun legacyTimestamps :: "TimedColorTemperature list \<Rightarrow> time_Time \<Rightarrow> TimeStamp list \<Rightarrow> TimeStamp list" where
  "legacyTimestamps [] date acc = acc"
| "legacyTimestamps (candidate # rest) date acc =
     (case AsTimestamp candidate date of
        Inl err \<Rightarrow> legacyTimestamps rest date acc
      | Inr timestamp \<Rightarrow> legacyTimestamps rest date (acc @ [timestamp]))"

definition lightScheduleForDay ::
  "'f Configuration \<Rightarrow> int \<Rightarrow> time_Time \<Rightarrow> 'f SunStateCalculator
     \<Rightarrow> (Schedule \<times> error option) exec" where
  "lightScheduleForDay configuration light date sunStateCalculator =
     (let (yr, mth, dy) = Date date;
          schedule = zeroSchedule\<lparr>endOfDay := time_Date yr mth dy 23 59 59 59 (loc date)\<rparr>
      in case findLightSchedule (Schedules configuration) light of
           None \<Rightarrow> Done (schedule, Some (NotAssociated light))
         | Some lightSchedule \<Rightarrow>
             (let schedule1 = schedule
                    \<lparr>sunrise_sched :=
                       \<lparr>Time_ts = CalculateSunrise sunStateCalculator date
                                    (Latitude (Location configuration))
                                    (Longitude (Location configuration)),
                        ColorTemperature_ts = DefaultColorTemperature lightSchedule,
                        Brightness_ts = DefaultBrightness lightSchedule\<rparr>,
                     sunset_sched :=
                       \<lparr>Time_ts = CalculateSunset sunStateCalculator date
                                    (Latitude (Location configuration))
                                    (Longitude (Location configuration)),
                        ColorTemperature_ts = DefaultColorTemperature lightSchedule,
                        Brightness_ts = DefaultBrightness lightSchedule\<rparr>\<rparr>
              in if length (Schedule lightSchedule) > 0 then
                   (case ComputeNewStyleSchedule (Schedule lightSchedule)
                           (Time_ts (sunrise_sched schedule1))
                           (Time_ts (sunset_sched schedule1)) date of
                      Panic \<Rightarrow> Panic
                    | Done (newScheduleTimes, Some err) \<Rightarrow> Done (schedule1, Some err)
                    | Done (newScheduleTimes, None) \<Rightarrow>
                        Done (schedule1\<lparr>times_sched := newScheduleTimes\<rparr>, None))
                 else Done (schedule1
                        \<lparr>beforeSunrise := legacyTimestamps (BeforeSunrise lightSchedule) date [],
                         afterSunset := legacyTimestamps (AfterSunset lightSchedule) date [],
                         enableWhenLightsAppear := EnableWhenLightsAppear lightSchedule\<rparr>,
                        None)))"

section \<open>The documented formats\<close>

text \<open>
  The comment above AsTimestamp2 lists the accepted formats: \<^verbatim>\<open>HH:MM\<close> and
  \<^verbatim>\<open>(sunrise|sunset) [ (+|-) NN m[inutes] ]\<close>. \<open>documentedFormat\<close> is that list read as
  generously as the expression allows (any text after the \<open>m\<close>), but for the whole string:
  nothing before the match and nothing after it.
\<close>

definition sunFormat :: "string \<Rightarrow> string \<Rightarrow> bool" where
  "sunFormat kw s =
     (case stripPrefix kw s of
        None \<Rightarrow> False
      | Some tail \<Rightarrow>
          tail = [] \<or> (case matchOffset tail of
                          None \<Rightarrow> False
                        | Some (off, sg, ds) \<Rightarrow> off = tail))"

definition documentedFormat :: "string \<Rightarrow> bool" where
  "documentedFormat s =
     (matchTime s = Some s \<or> sunFormat ''sunrise'' s \<or> sunFormat ''sunset'' s)"

section \<open>Fixtures (configuration_test.go and the scenario of the specification)\<close>

text \<open>The date, sunrise and sunset of TestLightScheduleForDay, all in UTC.\<close>

definition testDate :: time_Time where
  "testDate = time_Date 2021 4 28 0 0 1 0 0"

definition mockSunrise :: time_Time where
  "mockSunrise = time_Date 2021 4 28 7 30 0 0 0"

definition mockSunset :: time_Time where
  "mockSunset = time_Date 2021 4 28 20 0 0 0 0"

text \<open>The test's calculator returns its two fixed instants for every date.\<close>

definition MockSunStateCalculator :: "time_Time \<Rightarrow> time_Time \<Rightarrow> 'f SunStateCalculator" where
  "MockSunStateCalculator sr ss =
     \<lparr>CalculateSunrise = (\<lambda>date latitude longitude. sr),
      CalculateSunset = (\<lambda>date latitude longitude. ss)\<rparr>"

text \<open>
  A calculator that depends on the date it is asked about: sunrise at 07:30 and sunset
  at 20:00 on that calendar day.
\<close>

definition dailySunCalculator :: "'f SunStateCalculator" where
  "dailySunCalculator =
     \<lparr>CalculateSunrise = (\<lambda>date latitude longitude.
         (case Date date of (yr, mth, dy) \<Rightarrow> time_Date yr mth dy 7 30 0 0 (loc date))),
      CalculateSunset = (\<lambda>date latitude longitude.
         (case Date date of (yr, mth, dy) \<Rightarrow> time_Date yr mth dy 20 0 0 0 (loc date)))\<rparr>"

definition anchor :: "string \<Rightarrow> int \<Rightarrow> int \<Rightarrow> TimedColorTemperature" where
  "anchor t c b = \<lparr>Time = t, ColorTemperature = c, Brightness = b\<rparr>"

text \<open>A resolved point at a UTC wall-clock minute, as the test's \<open>parseTime\<close> builds it.\<close>

definition point :: "int \<Rightarrow> int \<Rightarrow> int \<Rightarrow> int \<Rightarrow> int \<Rightarrow> int \<Rightarrow> int \<Rightarrow> TimeStamp" where
  "point yr mth dy h mi c b =
     \<lparr>Time_ts = time_Date yr mth dy h mi 0 0 0, ColorTemperature_ts = c, Brightness_ts = b\<rparr>"

text \<open>The \<open>expectedTimes\<close> of TestLightScheduleForDay.\<close>

definition expectedTimes :: "TimeStamp list" where
  "expectedTimes =
     [point 2021 4 27 22 0 2000 70, point 2021 4 28 4 0 2000 60,
      point 2021 4 28 7 30 2700 60, point 2021 4 28 8 0 5000 100,
      point 2021 4 28 19 30 5000 100, point 2021 4 28 20 0 2700 80,
      point 2021 4 28 22 0 2000 70, point 2021 4 29 4 0 2000 60]"

text \<open>
  Modelled from the spec: the fixture file testdata/config-example-newstyleschedule.json
  is not among the sources. Its unified schedule is taken to be the six anchors between
  the two seeds of the scenario: 04:00, sunrise+0m, sunrise+30m, sunset-30m, sunset+0m
  and 22:00, each with the colour temperature and brightness the scenario pairs it with.
\<close>

definition fixtureSchedule :: "TimedColorTemperature list" where
  "fixtureSchedule =
     [anchor ''04:00'' 2000 60, anchor ''sunrise+0m'' 2700 60,
      anchor ''sunrise+30m'' 5000 100, anchor ''sunset-30m'' 5000 100,
      anchor ''sunset+0m'' 2700 80, anchor ''22:00'' 2000 70]"

text \<open>The eight entries the scenario of the specification lists as the unified schedule.\<close>

definition scenarioSchedule :: "TimedColorTemperature list" where
  "scenarioSchedule =
     [anchor ''22:00'' 2000 70, anchor ''04:00'' 2000 60, anchor ''sunrise+0m'' 2700 60,
      anchor ''sunrise+30m'' 5000 100, anchor ''sunset-30m'' 5000 100,
      anchor ''sunset+0m'' 2700 80, anchor ''22:00'' 2000 70, anchor ''04:00'' 2000 60]"

text \<open>What the code returns for those eight entries: ten points, seven of them clamped.\<close>

definition scenarioTimes :: "TimeStamp list" where
  "scenarioTimes =
     [point 2021 4 27 4 0 2000 60, point 2021 4 28 22 0 2000 70,
      point 2021 4 28 22 1 2000 60, point 2021 4 28 22 2 2700 60,
      point 2021 4 28 22 3 5000 100, point 2021 4 28 22 4 5000 100,
      point 2021 4 28 22 5 2700 80, point 2021 4 28 22 6 2000 70,
      point 2021 4 28 22 7 2000 60, point 2021 4 29 22 0 2000 70]"

definition lightSchedule_of :: "int list \<Rightarrow> TimedColorTemperature list \<Rightarrow> LightSchedule" where
  "lightSchedule_of ids sched =
     \<lparr>Name = ''default'', AssociatedDeviceIDs = ids, EnableWhenLightsAppear = True,
      DefaultColorTemperature = 2750, DefaultBrightness = 100,
      BeforeSunrise = [anchor ''4:00'' 2000 60],
      AfterSunset = [anchor ''20:00'' 2300 80, anchor ''22:00'' 2000 60],
      Schedule = sched\<rparr>"

definition configuration_of :: "LightSchedule list \<Rightarrow> int Configuration" where
  "configuration_of scheds =
     \<lparr>ConfigurationFile = ''config.json'', Hash = [], Version = 0,
      Bridge = \<lparr>IP = [], Username = []\<rparr>,
      Location = \<lparr>Latitude = 0, Longitude = 0\<rparr>,
      WebInterface = \<lparr>Enabled = False, Port = 8080\<rparr>,
      Schedules = scheds\<rparr>"

text \<open>
  A schedule of the legacy style for lights 1 and 4, with defaults of its own.
\<close>

definition secondSchedule :: LightSchedule where
  "secondSchedule =
     \<lparr>Name = ''second'', AssociatedDeviceIDs = [1, 4], EnableWhenLightsAppear = False,
      DefaultColorTemperature = 3000, DefaultBrightness = 90,
      BeforeSunrise = [anchor ''5:15'' 2100 40], AfterSunset = [],
      Schedule = []\<rparr>"

text \<open>
  Three schedules: light 1 is listed by the second and by the third, light 3 by the first,
  light 7 by none.
\<close>

definition threeSchedules :: "LightSchedule list" where
  "threeSchedules =
     [lightSchedule_of [2, 3] fixtureSchedule, secondSchedule,
      lightSchedule_of [1] scenarioSchedule]"

text \<open>
  A schedule of the legacy style for light 5: two of its before-sunrise entries and one
  of its after-sunset entries are not clock times.
\<close>

definition legacySchedule :: LightSchedule where
  "legacySchedule =
     \<lparr>Name = ''legacy'', AssociatedDeviceIDs = [5], EnableWhenLightsAppear = True,
      DefaultColorTemperature = 2750, DefaultBrightness = 100,
      BeforeSunrise = [anchor ''4:00'' 2000 60, anchor ''sunrise'' 2700 60,
                       anchor ''25:00'' 2000 60, anchor ''6:30'' 2300 70],
      AfterSunset = [anchor ''20:00'' 2300 80, anchor ''bedtime'' 2000 50,
                     anchor ''22:00'' 2000 60],
      Schedule = []\<rparr>"

section \<open>Auxiliary facts\<close>

lemma AsTimestamp2_fields:
  "AsTimestamp2 c r s1 s2 = Done (Inr (t, ty)) \<Longrightarrow>
     ColorTemperature_ts t = ColorTemperature c \<and> Brightness_ts t = Brightness c"
  by (auto simp: AsTimestamp2_def Let_def split: if_splits sum.splits prod.splits)

subsection \<open>The loop of ComputeNewStyleSchedule\<close>

lemma loop_length:
  "ComputeNewStyleSchedule_loop cs acc sr ss d = Done (ts, None) \<Longrightarrow>
     length ts = length acc + length cs"
  by (induction cs arbitrary: acc)
     (auto simp: Let_def split: exec.splits sum.splits prod.splits if_splits)

lemma loop_prefix:
  "ComputeNewStyleSchedule_loop cs acc sr ss d = Done (ts, None) \<Longrightarrow>
     j < length acc \<Longrightarrow> ts ! j = acc ! j"
proof (induction cs arbitrary: acc)
  case Nil
  then show ?case by simp
next
  case (Cons c cs)
  from Cons.prems obtain cl where
    "ComputeNewStyleSchedule_loop cs (acc @ [cl]) sr ss d = Done (ts, None)"
    by (auto simp: Let_def split: exec.splits sum.splits prod.splits if_splits)
  from Cons.IH [OF this] Cons.prems(2) show ?case
    by (simp add: nth_append)
qed

lemma loop_step:
  "ComputeNewStyleSchedule_loop cs acc sr ss d = Done (ts, None) \<Longrightarrow> i < length cs \<Longrightarrow>
     \<exists>r ty. AsTimestamp2 (cs ! i) d sr ss = Done (Inr (r, ty))
       \<and> 0 < length acc + i
       \<and> ts ! (length acc + i) =
           (if Before (Time_ts r) (Time_ts (ts ! (length acc + i - 1)))
               \<or> Equal (Time_ts r) (Time_ts (ts ! (length acc + i - 1)))
            then r\<lparr>Time_ts := Add (Time_ts (ts ! (length acc + i - 1))) time_Minute\<rparr>
            else r)"
proof (induction cs arbitrary: acc i)
  case Nil
  then show ?case by simp
next
  case (Cons c cs)
  from Cons.prems(1) obtain t ty where
    res: "AsTimestamp2 c d sr ss = Done (Inr (t, ty))" and ne: "acc \<noteq> []"
    by (auto simp: Let_def split: exec.splits sum.splits prod.splits if_splits)
  define p where "p = Time_ts (acc ! (length acc - 1))"
  define cl where "cl = (if Before (Time_ts t) p \<or> Equal (Time_ts t) p
                         then t\<lparr>Time_ts := Add p time_Minute\<rparr> else t)"
  from Cons.prems(1) res ne have
    rest: "ComputeNewStyleSchedule_loop cs (acc @ [cl]) sr ss d = Done (ts, None)"
    by (auto simp: Let_def cl_def p_def split: if_splits)
  show ?case
  proof (cases i)
    case 0
    have a: "ts ! (length acc) = cl"
      using loop_prefix [OF rest, of "length acc"] by simp
    have b: "ts ! (length acc - 1) = acc ! (length acc - 1)"
      using loop_prefix [OF rest, of "length acc - 1"] ne by (simp add: nth_append)
    show ?thesis using 0 res ne a b by (simp add: cl_def p_def)
  next
    case (Suc k)
    with Cons.prems(2) have k: "k < length cs" by simp
    have e1: "length (acc @ [cl]) + k = length acc + i" using Suc by simp
    have e2: "cs ! k = (c # cs) ! i" using Suc by simp
    show ?thesis using Cons.IH [OF rest k] unfolding e1 e2 .
  qed
qed

text \<open>A successful call is the previous-day seed, the loop over it, and the next-day seed.\<close>

lemma ComputeNewStyleSchedule_success:
  assumes "ComputeNewStyleSchedule cs sr ss d = Done (ts, None)"
  shows "\<exists>p ty1 mid n ty2. cs \<noteq> []
     \<and> AsTimestamp2 (cs ! (length cs - 1)) (AddDate d 0 0 (- 1)) sr ss = Done (Inr (p, ty1))
     \<and> ComputeNewStyleSchedule_loop cs [p] sr ss d = Done (mid, None)
     \<and> AsTimestamp2 (cs ! 0) (AddDate d 0 0 1) sr ss = Done (Inr (n, ty2))
     \<and> ts = mid @ [n]"
  using assms
  by (auto simp: ComputeNewStyleSchedule_def Let_def
           split: if_splits exec.splits sum.splits prod.splits option.splits)

text \<open>
  Both seeds are resolved with the sunrise and sunset the caller supplied: only the
  reference date is moved by a day.
\<close>

lemma ComputeNewStyleSchedule_seeds:
  assumes ok: "ComputeNewStyleSchedule cs sr ss d = Done (ts, None)"
  shows "\<exists>ty1 ty2.
      AsTimestamp2 (last cs) (AddDate d 0 0 (- 1)) sr ss = Done (Inr (ts ! 0, ty1))
    \<and> AsTimestamp2 (hd cs) (AddDate d 0 0 1) sr ss = Done (Inr (last ts, ty2))"
proof -
  from ComputeNewStyleSchedule_success [OF ok] obtain p ty1 mid n ty2 where
    ne: "cs \<noteq> []"
    and prev: "AsTimestamp2 (cs ! (length cs - 1)) (AddDate d 0 0 (- 1)) sr ss
                 = Done (Inr (p, ty1))"
    and loop: "ComputeNewStyleSchedule_loop cs [p] sr ss d = Done (mid, None)"
    and nxt: "AsTimestamp2 (cs ! 0) (AddDate d 0 0 1) sr ss = Done (Inr (n, ty2))"
    and ts: "ts = mid @ [n]"
    by blast
  have len: "length mid = length cs + 1"
    using loop_length [OF loop] by simp
  have first: "ts ! 0 = p"
    using loop_prefix [OF loop, of 0] len ts by (simp add: nth_append)
  have "last ts = n" using ts by simp
  with first prev nxt ne show ?thesis
    by (auto simp: last_conv_nth hd_conv_nth)
qed

subsection \<open>Character classes and the offset expression\<close>

lemma isDigit_not_isSpace: "isDigit c \<Longrightarrow> \<not> isSpace c"
  by (auto simp: isDigit_def isSpace_def)

lemma isDigit_not_sign: "isDigit c \<Longrightarrow> c \<noteq> CHR ''+'' \<and> c \<noteq> CHR ''-'' \<and> c \<noteq> CHR ''m''"
  by (auto simp: isDigit_def)

lemma digitVal_range: "isDigit c \<Longrightarrow> 0 \<le> digitVal c \<and> digitVal c \<le> 9"
  by (auto simp: isDigit_def digitVal_def)

lemma run_split:
  assumes "list_all P xs" and "ys = [] \<or> \<not> P (hd ys)"
  shows "takeWhile P (xs @ ys) = xs" and "dropWhile P (xs @ ys) = ys"
proof -
  from assms(1) have all: "\<And>x. x \<in> set xs \<Longrightarrow> P x" by (simp add: list_all_iff)
  from assms(2) have "takeWhile P ys = []" and "dropWhile P ys = ys"
    by (cases ys; auto)+
  then show "takeWhile P (xs @ ys) = xs" and "dropWhile P (xs @ ys) = ys"
    using all by simp_all
qed

lemma matchOffset_wellformed:
  assumes ws1: "list_all isSpace ws1" and ws2: "list_all isSpace ws2"
    and ws3: "list_all isSpace ws3"
    and sg: "sg = CHR ''+'' \<or> sg = CHR ''-''"
    and ds: "ds \<noteq> []" "list_all isDigit ds"
  shows "matchOffset (ws1 @ [sg] @ ws2 @ ds @ ws3 @ ''m'' @ rest) =
           Some (ws1 @ [sg] @ ws2 @ ds @ ws3 @ ''m'' @ takeWhile (\<lambda>c. c \<noteq> CHR 0x0A) rest,
                 [sg], ds)"
proof -
  have nsg: "\<not> isSpace sg" using sg by (auto simp: isSpace_def)
  have dhd: "isDigit (hd ds)" using ds by (cases ds) auto
  have a: "takeWhile isSpace (ws1 @ sg # ws2 @ ds @ ws3 @ CHR ''m'' # rest) = ws1"
          "dropWhile isSpace (ws1 @ sg # ws2 @ ds @ ws3 @ CHR ''m'' # rest)
             = sg # ws2 @ ds @ ws3 @ CHR ''m'' # rest"
    using run_split [OF ws1, of "sg # ws2 @ ds @ ws3 @ CHR ''m'' # rest"] nsg by simp_all
  have b: "takeWhile isSpace (ws2 @ ds @ ws3 @ CHR ''m'' # rest) = ws2"
          "dropWhile isSpace (ws2 @ ds @ ws3 @ CHR ''m'' # rest) = ds @ ws3 @ CHR ''m'' # rest"
    using run_split [OF ws2, of "ds @ ws3 @ CHR ''m'' # rest"] ds(1) dhd
    by (simp_all add: isDigit_not_isSpace)
  have nd: "\<not> isDigit (hd (ws3 @ CHR ''m'' # rest))"
    using ws3 by (cases ws3) (auto simp: isDigit_def isSpace_def)
  have c: "takeWhile isDigit (ds @ ws3 @ CHR ''m'' # rest) = ds"
          "dropWhile isDigit (ds @ ws3 @ CHR ''m'' # rest) = ws3 @ CHR ''m'' # rest"
    using run_split [OF ds(2), of "ws3 @ CHR ''m'' # rest"] nd by simp_all
  have d: "takeWhile isSpace (ws3 @ CHR ''m'' # rest) = ws3"
          "dropWhile isSpace (ws3 @ CHR ''m'' # rest) = CHR ''m'' # rest"
    using run_split [OF ws3, of "CHR ''m'' # rest"] by (simp_all add: isSpace_def)
  show ?thesis
    using sg ds(1) by (auto simp: matchOffset_def a b c d)
qed

subsection \<open>Numbers\<close>

lemma wrap64_id: "- (2 ^ 63) \<le> x \<Longrightarrow> x < 2 ^ 63 \<Longrightarrow> wrap64 x = x"
  by (simp add: wrap64_def)

lemma decimal_acc_nonneg:
  "0 \<le> n \<Longrightarrow> list_all isDigit s \<Longrightarrow> 0 \<le> foldl (\<lambda>n c. 10 * n + digitVal c) n s"
proof (induction s arbitrary: n)
  case Nil
  then show ?case by simp
next
  case (Cons c s)
  from Cons.prems have "0 \<le> 10 * n + digitVal c"
    using digitVal_range [of c] by simp
  with Cons show ?case by simp
qed

lemma decimal_nonneg: "list_all isDigit s \<Longrightarrow> 0 \<le> decimal s"
  unfolding decimal_def by (rule decimal_acc_nonneg) simp_all

lemma Atoi_digits:
  assumes "ds \<noteq> []" "list_all isDigit ds" "decimal ds \<le> 2 ^ 63 - 1"
  shows "Atoi ds = Inr (decimal ds)"
proof -
  have "isDigit (hd ds)" using assms by (cases ds) auto
  then have "hd ds \<noteq> CHR ''+''" "hd ds \<noteq> CHR ''-''"
    using isDigit_not_sign by blast+
  then show ?thesis using assms by (simp add: Atoi_def Let_def)
qed

lemma Atoi_overflow:
  assumes "ds \<noteq> []" "list_all isDigit ds" "2 ^ 63 - 1 < decimal ds"
  shows "Atoi ds = Inl (NumError ds)"
proof -
  have "isDigit (hd ds)" using assms by (cases ds) auto
  then have "hd ds \<noteq> CHR ''+''" "hd ds \<noteq> CHR ''-''"
    using isDigit_not_sign by blast+
  then show ?thesis using assms by (simp add: Atoi_def Let_def)
qed

subsection \<open>The groups of a match and what AsTimestamp2 does with them\<close>

lemma FindStringSubmatch_keyword:
  assumes "kw = ''sunrise'' \<or> kw = ''sunset''"
  shows "FindStringSubmatch (kw @ tail) =
           (case matchOffset tail of
              Some (off, sg, ds) \<Rightarrow> [kw @ off, [], kw @ off, kw, off, sg, ds]
            | None \<Rightarrow> [kw, [], kw, kw, [], [], []])"
  using assms
  by (auto simp: matchHere_def matchTime_def matchSpec_def isDigit_def split: option.splits)

lemma FindStringSubmatch_skip:
  "(\<forall>i<length p. matchHere (drop i (p @ s)) = None) \<Longrightarrow>
     FindStringSubmatch (p @ s) = FindStringSubmatch s"
proof (induction p)
  case Nil
  then show ?case by simp
next
  case (Cons c p)
  from Cons.prems have here: "matchHere (c # p @ s) = None" by auto
  have "\<forall>i<length p. matchHere (drop i (p @ s)) = None"
  proof (intro allI impI)
    fix i assume "i < length p"
    with Cons.prems have "matchHere (drop (Suc i) ((c # p) @ s)) = None"
      by (metis Suc_less_eq length_Cons)
    then show "matchHere (drop i (p @ s)) = None" by simp
  qed
  with Cons.IH here show ?case by simp
qed

lemma AsTimestamp2_groups_plain:
  assumes "FindStringSubmatch (Time color) = [kw, [], kw, kw, [], [], []]" and "kw \<noteq> []"
  shows "AsTimestamp2 color referenceTime sunrise sunset =
           Done (Inr (\<lparr>Time_ts = (if kw = ''sunrise'' then sunrise else sunset),
                        ColorTemperature_ts = ColorTemperature color,
                        Brightness_ts = Brightness color\<rparr>,
                      if kw = ''sunrise'' then Sunrise else Sunset))"
  using assms by (simp add: AsTimestamp2_def)

lemma AsTimestamp2_groups_offset:
  assumes "FindStringSubmatch (Time color) = [kw @ off, [], kw @ off, kw, off, sg, ds]"
    and "off \<noteq> []"
  shows "AsTimestamp2 color referenceTime sunrise sunset =
           (case Atoi ds of
              Inl err \<Rightarrow> Done (Inl err)
            | Inr minutes \<Rightarrow>
                Done (Inr (\<lparr>Time_ts = Add (if kw = ''sunrise'' then sunrise else sunset)
                                        (if sg = ''+'' then wrap64 (time_Minute * minutes)
                                         else wrap64 (- time_Minute * minutes)),
                             ColorTemperature_ts = ColorTemperature color,
                             Brightness_ts = Brightness color\<rparr>,
                           if kw = ''sunrise'' then Sunrise else Sunset)))"
  using assms by (simp add: AsTimestamp2_def split: sum.splits)

subsection \<open>The invalid-timestamp branch is dead\<close>

lemma matchHere_nonempty: "matchHere s = Some gs \<Longrightarrow> gs \<noteq> [] \<and> hd gs \<noteq> []"
  by (auto simp: matchHere_def matchTime_def matchSpec_def Let_def
           split: option.splits if_splits prod.splits)

lemma FindStringSubmatch_nonempty:
  "FindStringSubmatch s \<noteq> [] \<Longrightarrow> FindStringSubmatch s ! 0 \<noteq> []"
proof (induction s)
  case Nil
  then show ?case
    using matchHere_nonempty [of "[]"] by (auto simp: hd_conv_nth split: option.splits)
next
  case (Cons c r)
  then show ?case
    using matchHere_nonempty [of "c # r"] by (auto simp: hd_conv_nth split: option.splits)
qed

lemma time_Parse_error: "time_Parse v = Inl e \<Longrightarrow> e = ParseError v"
  by (auto simp: time_Parse_def split: option.splits prod.splits if_splits list.splits)

lemma Atoi_error: "Atoi s = Inl e \<Longrightarrow> e = NumError s"
  by (auto simp: Atoi_def Let_def split: if_splits)

lemma AsTimestamp2_never_InvalidTimestamp:
  "AsTimestamp2 color referenceTime sunrise sunset \<noteq> Done (Inl (InvalidTimestamp t))"
proof
  assume a: "AsTimestamp2 color referenceTime sunrise sunset = Done (Inl (InvalidTimestamp t))"
  show False
  proof (cases "FindStringSubmatch (Time color) = []")
    case True
    with a show False by (simp add: AsTimestamp2_def)
  next
    case False
    from FindStringSubmatch_nonempty [OF False] False a show False
      by (auto simp: AsTimestamp2_def Let_def
               split: if_splits sum.splits prod.splits
               dest: time_Parse_error Atoi_error)
  qed
qed

subsection \<open>The errors of a build come from time.Parse and strconv.Atoi\<close>

lemma AsTimestamp2_error_kind:
  "AsTimestamp2 color referenceTime sunrise sunset = Done (Inl e) \<Longrightarrow> e \<noteq> NotAssociated l"
  by (auto simp: AsTimestamp2_def Let_def
           split: if_splits sum.splits prod.splits
           dest: time_Parse_error Atoi_error)

lemma loop_error_kind:
  "ComputeNewStyleSchedule_loop cs acc sr ss d = Done (ts, Some e) \<Longrightarrow> e \<noteq> NotAssociated l"
proof (induction cs arbitrary: acc)
  case Nil
  then show ?case by simp
next
  case (Cons c cs)
  show ?case
  proof (cases "AsTimestamp2 c d sr ss")
    case Panic
    with Cons.prems show ?thesis by simp
  next
    case (Done r)
    show ?thesis
    proof (cases r)
      case (Inl err)
      with Done Cons.prems have "e = err" by simp
      with Done Inl AsTimestamp2_error_kind show ?thesis by blast
    next
      case (Inr pr)
      with Done Cons.prems obtain cl where
        "ComputeNewStyleSchedule_loop cs (acc @ [cl]) sr ss d = Done (ts, Some e)"
        by (auto simp: Let_def split: prod.splits if_splits)
      then show ?thesis by (rule Cons.IH)
    qed
  qed
qed

lemma ComputeNewStyleSchedule_error_kind:
  assumes "ComputeNewStyleSchedule cs sr ss d = Done (ts, Some e)"
  shows "e \<noteq> NotAssociated l"
  using assms
  by (auto simp: ComputeNewStyleSchedule_def Let_def
           split: if_splits exec.splits sum.splits prod.splits option.splits
           dest: AsTimestamp2_error_kind loop_error_kind)

subsection \<open>The legacy loops without the loop\<close>

text \<open>
  An entry is kept exactly when \<open>time.Parse\<close> accepts its time string; the kept entries
  stay in order, each resolved by AsTimestamp to its clock time on the day of the date.
\<close>

lemma legacyTimestamps_filter:
  "legacyTimestamps cs date acc =
     acc @ map (\<lambda>candidate. projr (AsTimestamp candidate date))
             (filter (\<lambda>candidate. \<not> isl (AsTimestamp candidate date)) cs)"
  by (induction cs arbitrary: acc) (auto split: sum.splits)

lemma AsTimestamp_accepts:
  "isl (AsTimestamp candidate date) = isl (time_Parse (Time candidate))"
  by (simp add: AsTimestamp_def split: sum.splits prod.splits)

lemma AsTimestamp_point:
  "time_Parse (Time candidate) = Inr t \<Longrightarrow>
     AsTimestamp candidate date =
       Inr \<lparr>Time_ts = (case Date date of (yr, mth, day) \<Rightarrow>
                          time_Date yr mth day (Hour t) (Minute t) (Second t) 0 (loc date)),
            ColorTemperature_ts = ColorTemperature candidate,
            Brightness_ts = Brightness candidate\<rparr>"
  by (simp add: AsTimestamp_def split: prod.splits)

subsection \<open>The search for the light's schedule\<close>

lemma containsInt_iff: "containsInt s e = (e \<in> set s)"
  by (induction s) auto

lemma findLightSchedule_none:
  "(\<forall>c\<in>set scheds. light \<notin> set (AssociatedDeviceIDs c)) \<Longrightarrow>
     findLightSchedule scheds light = None"
  by (induction scheds) (auto simp: containsInt_iff)

lemma findLightSchedule_first:
  "(\<forall>p\<in>set pre. light \<notin> set (AssociatedDeviceIDs p)) \<Longrightarrow>
   light \<in> set (AssociatedDeviceIDs c) \<Longrightarrow>
     findLightSchedule (pre @ c # post) light = Some c"
  by (induction pre) (auto simp: containsInt_iff)

subsection \<open>Up to the last declared anchor the sequence increases\<close>

text \<open>
  The clamp of the loop makes every stored point strictly later than the one before it.
  The loop ends with the last declared anchor: the next-day seed is appended after it
  without this comparison.
\<close>

lemma ComputeNewStyleSchedule_prefix_increasing:
  assumes ok: "ComputeNewStyleSchedule cs sr ss d = Done (ts, None)" and i: "i < length cs"
  shows "Before (Time_ts (ts ! i)) (Time_ts (ts ! (i + 1)))"
proof -
  from ComputeNewStyleSchedule_success [OF ok] obtain p mid n where
    loop: "ComputeNewStyleSchedule_loop cs [p] sr ss d = Done (mid, None)"
    and ts: "ts = mid @ [n]"
    by blast
  have len: "length mid = length cs + 1"
    using loop_length [OF loop] by simp
  from loop_step [OF loop i] obtain r ty where
    r: "AsTimestamp2 (cs ! i) d sr ss = Done (Inr (r, ty))"
    and st: "mid ! (1 + i) =
         (if Before (Time_ts r) (Time_ts (mid ! (1 + i - 1)))
             \<or> Equal (Time_ts r) (Time_ts (mid ! (1 + i - 1)))
          then r\<lparr>Time_ts := Add (Time_ts (mid ! (1 + i - 1))) time_Minute\<rparr>
          else r)"
    by auto
  have e1: "ts ! (i + 1) = mid ! (1 + i)" and e2: "ts ! i = mid ! (1 + i - 1)"
    using ts len i by (simp_all add: nth_append)
  show ?thesis
    unfolding e1 e2 st
    by (auto simp: Before_def Equal_def Add_def time_Minute_def)
qed

subsection \<open>Evaluations on the fixtures\<close>

lemma fixture_eval:
  "ComputeNewStyleSchedule fixtureSchedule mockSunrise mockSunset testDate
     = Done (expectedTimes, None)"
  by code_simp


section \<open>The resolved sequence\<close>

text \<open>
  Claim C1. For every non-empty unified schedule of N entries on which it succeeds,
  ComputeNewStyleSchedule returns exactly N+2 points: the previous-day seed, which carries
  the colour temperature and brightness of the last entry, then one point per declared
  entry in declared order, each carrying that entry's colour temperature and brightness,
  then the next-day seed, which carries those of the first entry.
\<close>

theorem ComputeNewStyleSchedule_length:
  assumes ne: "configSchedule \<noteq> []"
    and ok: "ComputeNewStyleSchedule configSchedule sunrise sunset date = Done (timeStamps, None)"
  shows "length timeStamps = length configSchedule + 2
     \<and> ColorTemperature_ts (timeStamps ! 0) = ColorTemperature (last configSchedule)
     \<and> Brightness_ts (timeStamps ! 0) = Brightness (last configSchedule)
     \<and> (\<forall>i<length configSchedule.
           ColorTemperature_ts (timeStamps ! (i + 1)) = ColorTemperature (configSchedule ! i)
         \<and> Brightness_ts (timeStamps ! (i + 1)) = Brightness (configSchedule ! i))
     \<and> ColorTemperature_ts (timeStamps ! (length configSchedule + 1))
         = ColorTemperature (hd configSchedule)
     \<and> Brightness_ts (timeStamps ! (length configSchedule + 1))
         = Brightness (hd configSchedule)"
proof -
  from ComputeNewStyleSchedule_success [OF ok] obtain p ty1 mid n ty2 where
    prev: "AsTimestamp2 (configSchedule ! (length configSchedule - 1)) (AddDate date 0 0 (- 1))
             sunrise sunset = Done (Inr (p, ty1))"
    and loop: "ComputeNewStyleSchedule_loop configSchedule [p] sunrise sunset date
                 = Done (mid, None)"
    and nxt: "AsTimestamp2 (configSchedule ! 0) (AddDate date 0 0 1) sunrise sunset
                = Done (Inr (n, ty2))"
    and ts: "timeStamps = mid @ [n]"
    by blast
  have len: "length mid = length configSchedule + 1"
    using loop_length [OF loop] by simp
  have first: "mid ! 0 = p"
    using loop_prefix [OF loop, of 0] by simp
  have lastc: "configSchedule ! (length configSchedule - 1) = last configSchedule"
    using ne by (simp add: last_conv_nth)
  have hdc: "configSchedule ! 0 = hd configSchedule"
    using ne by (simp add: hd_conv_nth)
  have seed0: "ColorTemperature_ts (timeStamps ! 0) = ColorTemperature (last configSchedule)
     \<and> Brightness_ts (timeStamps ! 0) = Brightness (last configSchedule)"
    using AsTimestamp2_fields [OF prev] first len ts lastc by (simp add: nth_append)
  have seedN: "ColorTemperature_ts (timeStamps ! (length configSchedule + 1))
         = ColorTemperature (hd configSchedule)
     \<and> Brightness_ts (timeStamps ! (length configSchedule + 1))
         = Brightness (hd configSchedule)"
    using AsTimestamp2_fields [OF nxt] len ts hdc by (simp add: nth_append)
  have mid: "ColorTemperature_ts (timeStamps ! (i + 1)) = ColorTemperature (configSchedule ! i)
         \<and> Brightness_ts (timeStamps ! (i + 1)) = Brightness (configSchedule ! i)"
    if i: "i < length configSchedule" for i
  proof -
    from loop_step [OF loop i] obtain r ty where
      r: "AsTimestamp2 (configSchedule ! i) date sunrise sunset = Done (Inr (r, ty))"
      and st: "mid ! (1 + i) =
           (if Before (Time_ts r) (Time_ts (mid ! (1 + i - 1)))
               \<or> Equal (Time_ts r) (Time_ts (mid ! (1 + i - 1)))
            then r\<lparr>Time_ts := Add (Time_ts (mid ! (1 + i - 1))) time_Minute\<rparr>
            else r)"
      by auto
    have "timeStamps ! (i + 1) = mid ! (1 + i)"
      using ts len i by (simp add: nth_append)
    with st AsTimestamp2_fields [OF r] show ?thesis
      by (simp split: if_splits)
  qed
  show ?thesis using len ts seed0 seedN mid by simp
qed

text \<open>The fixture schedule of six anchors resolves to the eight expected points.\<close>

theorem ComputeNewStyleSchedule_length_witness:
  "fixtureSchedule \<noteq> []
   \<and> ComputeNewStyleSchedule fixtureSchedule mockSunrise mockSunset testDate
       = Done (expectedTimes, None)
   \<and> length expectedTimes = length fixtureSchedule + 2
   \<and> length expectedTimes = 8
   \<and> ColorTemperature_ts (expectedTimes ! (2 + 1)) = ColorTemperature (fixtureSchedule ! 2)
   \<and> Brightness_ts (expectedTimes ! (2 + 1)) = Brightness (fixtureSchedule ! 2)"
proof -
  have ne: "fixtureSchedule \<noteq> []" by (simp add: fixtureSchedule_def)
  have i: "2 < length fixtureSchedule" by (simp add: fixtureSchedule_def)
  have n: "length expectedTimes = 8" by (simp add: expectedTimes_def)
  show ?thesis
    using ne i n fixture_eval ComputeNewStyleSchedule_length [OF ne fixture_eval]
    by blast
qed

text \<open>
  Claim C2 (evaluation of the code where the claim fails). The claim says that every
  adjacent pair of the returned sequence is non-decreasing, the final next-day seed
  included. For the schedule [sunrise, 22:00] the code returns 22:00 of the previous
  day, 07:30, 22:00 and then, as the next-day seed, again 07:30 of the current day:
  the last step goes back. For the schedule [00:00, 23:59, 00:00, 00:00] of fixed times
  the two clamped points reach 00:00 and 00:01 of the next day, and the seed 00:00 of the
  next day follows 00:01.
\<close>

theorem ComputeNewStyleSchedule_final_step_decreases:
  "ComputeNewStyleSchedule [anchor ''sunrise'' 2700 60, anchor ''22:00'' 2000 70]
       mockSunrise mockSunset testDate
     = Done ([point 2021 4 27 22 0 2000 70, point 2021 4 28 7 30 2700 60,
              point 2021 4 28 22 0 2000 70, point 2021 4 28 7 30 2700 60], None)
   \<and> Before (Time_ts (point 2021 4 28 7 30 2700 60)) (Time_ts (point 2021 4 28 22 0 2000 70))
   \<and> ComputeNewStyleSchedule [anchor ''00:00'' 2000 60, anchor ''23:59'' 2000 70,
                               anchor ''00:00'' 2000 60, anchor ''00:00'' 2000 60]
       mockSunrise mockSunset testDate
     = Done ([point 2021 4 27 0 0 2000 60, point 2021 4 28 0 0 2000 60,
              point 2021 4 28 23 59 2000 70, point 2021 4 29 0 0 2000 60,
              point 2021 4 29 0 1 2000 60, point 2021 4 29 0 0 2000 60], None)
   \<and> Before (Time_ts (point 2021 4 29 0 0 2000 60)) (Time_ts (point 2021 4 29 0 1 2000 60))"
  by code_simp



text \<open>
  Claim C4 (evaluation of the code where the claim fails). The claim says that the first
  element is the last anchor resolved against the previous day and the previous day's
  sunrise and sunset, and the final element the first anchor resolved against the next
  day and the next day's sunrise and sunset. lightScheduleForDay asks the calculator
  for the current day only and ComputeNewStyleSchedule uses those two instants for all
  three days. With sunrise at 07:30 and sunset at 20:00 on every day and the schedule
  [sunrise, sunset], the first element is 20:00 of the current day, where the claim has
  20:00 of the previous day, and the final element is 07:30 of the current day, where
  the claim has 07:30 of the next day.
\<close>

theorem lightScheduleForDay_seeds_use_current_day_sun:
  "lightScheduleForDay
       (configuration_of
          [lightSchedule_of [1] [anchor ''sunrise'' 2700 60, anchor ''sunset'' 2700 80]])
       1 testDate dailySunCalculator
     = Done (\<lparr>endOfDay = time_Date 2021 4 28 23 59 59 59 0,
              sunrise_sched = point 2021 4 28 7 30 2750 100,
              sunset_sched = point 2021 4 28 20 0 2750 100,
              times_sched = [point 2021 4 28 20 0 2700 80, point 2021 4 28 20 1 2700 60,
                             point 2021 4 28 20 2 2700 80, point 2021 4 28 7 30 2700 60],
              beforeSunrise = [], afterSunset = [], enableWhenLightsAppear = False\<rparr>, None)
   \<and> AsTimestamp2 (anchor ''sunset'' 2700 80) (AddDate testDate 0 0 (- 1))
        (CalculateSunrise dailySunCalculator (AddDate testDate 0 0 (- 1)) (0::int) 0)
        (CalculateSunset dailySunCalculator (AddDate testDate 0 0 (- 1)) (0::int) 0)
     = Done (Inr (point 2021 4 27 20 0 2700 80, Sunset))
   \<and> AsTimestamp2 (anchor ''sunrise'' 2700 60) (AddDate testDate 0 0 1)
        (CalculateSunrise dailySunCalculator (AddDate testDate 0 0 1) (0::int) 0)
        (CalculateSunset dailySunCalculator (AddDate testDate 0 0 1) (0::int) 0)
     = Done (Inr (point 2021 4 29 7 30 2700 60, Sunrise))"
  by code_simp

section \<open>Time specifications\<close>

text \<open>
  Claim C5 (evaluation of the code where the claim fails). The claim says that every
  string outside the documented formats, "moonrise" and "25:99" among them, makes
  AsTimestamp2 return an invalid-timestamp error that aborts the build. On "moonrise"
  the expression matches nowhere, \<open>FindStringSubmatch\<close> returns \<open>nil\<close>, and reading
  \<open>matches[0]\<close> panics: AsTimestamp2 returns nothing, and neither does
  ComputeNewStyleSchedule. On "25:99" the first alternative matches and \<open>time.Parse\<close>
  rejects the hour: that error is returned and aborts the build with no point stored.
\<close>

theorem AsTimestamp2_unmatched_panics:
  "AsTimestamp2 \<lparr>Time = ''moonrise'', ColorTemperature = c, Brightness = b\<rparr>
       referenceTime sunrise sunset = Panic
   \<and> ComputeNewStyleSchedule [\<lparr>Time = ''moonrise'', ColorTemperature = c, Brightness = b\<rparr>]
       sunrise sunset date = Panic
   \<and> AsTimestamp2 \<lparr>Time = ''25:99'', ColorTemperature = c, Brightness = b\<rparr>
       referenceTime sunrise sunset = Done (Inl (ParseError ''25:99''))
   \<and> ComputeNewStyleSchedule [\<lparr>Time = ''25:99'', ColorTemperature = c, Brightness = b\<rparr>]
       sunrise sunset date = Done ([], Some (ParseError ''25:99''))"
proof -
  have moon: "AsTimestamp2 \<lparr>Time = ''moonrise'', ColorTemperature = c, Brightness = b\<rparr> r sr ss
                = Panic" for r sr ss
    by (simp add: AsTimestamp2_def matchHere_def matchTime_def matchSpec_def isDigit_def)
  have bad: "AsTimestamp2 \<lparr>Time = ''25:99'', ColorTemperature = c, Brightness = b\<rparr> r sr ss
               = Done (Inl (ParseError ''25:99''))" for r sr ss
    by (simp add: AsTimestamp2_def matchHere_def matchTime_def isDigit_def time_Parse_def
                  digitVal_def)
  show ?thesis
    by (simp add: moon bad ComputeNewStyleSchedule_def)
qed

text \<open>
  Claim C6 (as stated, refuted). An offset whose digits do not fit a 64-bit \<open>int\<close> makes
  \<open>strconv.Atoi\<close> fail and AsTimestamp2 return that error; an offset of 153722868
  minutes overflows the 64-bit Duration and the result lies before the sunrise.
\<close>

theorem AsTimestamp2_sun_offset_counterexample:
  "AsTimestamp2 (anchor ''sunrise + 99999999999999999999m'' 2700 60)
       testDate mockSunrise mockSunset
     = Done (Inl (NumError ''99999999999999999999''))
   \<and> AsTimestamp2 (anchor ''sunrise + 153722868m'' 2700 60) testDate mockSunrise mockSunset
     = Done (Inr (\<lparr>Time_ts = Add mockSunrise (153722868 * time_Minute - 2 ^ 64),
                    ColorTemperature_ts = 2700, Brightness_ts = 60\<rparr>, Sunrise))
   \<and> Before (Add mockSunrise (153722868 * time_Minute - 2 ^ 64)) mockSunrise"
  by code_simp

text \<open>
  Claim C6 (amended). For the string sunrise or sunset alone AsTimestamp2 returns the
  supplied sunrise (respectively sunset) instant; followed by optional white space, a
  sign, optional white space, digits NN of value at most 153722867, optional white space
  and a word starting with m, it returns that instant plus (respectively minus) NN
  minutes. In both cases the colour temperature and brightness are those of the source
  entry. When the digits in that place have a value above 2^63 - 1, the greatest signed
  64-bit integer, AsTimestamp2 returns the error of \<open>strconv.Atoi\<close> on those digits.
\<close>

theorem AsTimestamp2_sun_offset:
  assumes kw: "kw = ''sunrise'' \<or> kw = ''sunset''"
    and ws1: "list_all isSpace ws1" and ws2: "list_all isSpace ws2"
    and ws3: "list_all isSpace ws3"
    and sg: "sg = CHR ''+'' \<or> sg = CHR ''-''"
    and ds: "ds \<noteq> []" "list_all isDigit ds"
    and bound: "decimal ds \<le> 153722867"
  shows "AsTimestamp2 (color\<lparr>Time := kw\<rparr>) referenceTime sunrise sunset
           = Done (Inr (\<lparr>Time_ts = (if kw = ''sunrise'' then sunrise else sunset),
                          ColorTemperature_ts = ColorTemperature color,
                          Brightness_ts = Brightness color\<rparr>,
                        if kw = ''sunrise'' then Sunrise else Sunset))
       \<and> AsTimestamp2 (color\<lparr>Time := kw @ ws1 @ [sg] @ ws2 @ ds @ ws3 @ ''m'' @ rest\<rparr>)
             referenceTime sunrise sunset
           = Done (Inr (\<lparr>Time_ts = Add (if kw = ''sunrise'' then sunrise else sunset)
                                       (if sg = CHR ''+'' then decimal ds * time_Minute
                                        else - (decimal ds * time_Minute)),
                          ColorTemperature_ts = ColorTemperature color,
                          Brightness_ts = Brightness color\<rparr>,
                        if kw = ''sunrise'' then Sunrise else Sunset))
       \<and> (\<forall>big. big \<noteq> [] \<and> list_all isDigit big \<and> 2 ^ 63 - 1 < decimal big \<longrightarrow>
            AsTimestamp2 (color\<lparr>Time := kw @ ws1 @ [sg] @ ws2 @ big @ ws3 @ ''m'' @ rest\<rparr>)
              referenceTime sunrise sunset
            = Done (Inl (NumError big)))"
proof (intro conjI allI impI)
  have none: "matchOffset [] = None" by (simp add: matchOffset_def)
  have "FindStringSubmatch (Time (color\<lparr>Time := kw\<rparr>)) = [kw, [], kw, kw, [], [], []]"
    using FindStringSubmatch_keyword [OF kw, of "[]"] none by simp
  moreover have "kw \<noteq> []" using kw by auto
  ultimately show "AsTimestamp2 (color\<lparr>Time := kw\<rparr>) referenceTime sunrise sunset
           = Done (Inr (\<lparr>Time_ts = (if kw = ''sunrise'' then sunrise else sunset),
                          ColorTemperature_ts = ColorTemperature color,
                          Brightness_ts = Brightness color\<rparr>,
                        if kw = ''sunrise'' then Sunrise else Sunset))"
    using AsTimestamp2_groups_plain [of "color\<lparr>Time := kw\<rparr>" kw] by simp
next
  define tail where "tail = ws1 @ [sg] @ ws2 @ ds @ ws3 @ ''m'' @ rest"
  define off where "off = ws1 @ [sg] @ ws2 @ ds @ ws3 @ ''m'' @ takeWhile (\<lambda>c. c \<noteq> CHR 0x0A) rest"
  have m: "matchOffset tail = Some (off, [sg], ds)"
    unfolding tail_def off_def by (rule matchOffset_wellformed [OF ws1 ws2 ws3 sg ds])
  have offne: "off \<noteq> []" by (simp add: off_def)
  have groups: "FindStringSubmatch (Time (color\<lparr>Time := kw @ tail\<rparr>))
                  = [kw @ off, [], kw @ off, kw, off, [sg], ds]"
    using FindStringSubmatch_keyword [OF kw, of tail] m by simp
  have nonneg: "0 \<le> decimal ds" by (rule decimal_nonneg [OF ds(2)])
  have atoi: "Atoi ds = Inr (decimal ds)"
    using bound by (intro Atoi_digits ds) simp
  have plus: "wrap64 (time_Minute * decimal ds) = decimal ds * time_Minute"
    using nonneg bound by (simp add: wrap64_id time_Minute_def)
  have minus: "wrap64 (- time_Minute * decimal ds) = - (decimal ds * time_Minute)"
    using nonneg bound by (simp add: wrap64_id time_Minute_def)
  have minus': "wrap64 (- (time_Minute * decimal ds)) = - (decimal ds * time_Minute)"
    using minus by simp
  have sgs: "([sg] = ''+'') = (sg = CHR ''+'')" by simp
  show "AsTimestamp2 (color\<lparr>Time := kw @ ws1 @ [sg] @ ws2 @ ds @ ws3 @ ''m'' @ rest\<rparr>)
             referenceTime sunrise sunset
           = Done (Inr (\<lparr>Time_ts = Add (if kw = ''sunrise'' then sunrise else sunset)
                                       (if sg = CHR ''+'' then decimal ds * time_Minute
                                        else - (decimal ds * time_Minute)),
                          ColorTemperature_ts = ColorTemperature color,
                          Brightness_ts = Brightness color\<rparr>,
                        if kw = ''sunrise'' then Sunrise else Sunset))"
    using AsTimestamp2_groups_offset [OF groups offne, of referenceTime sunrise sunset]
    unfolding tail_def [symmetric]
    by (simp add: atoi plus minus' sgs tail_def cong: if_cong)
next
  fix big
  assume big: "big \<noteq> [] \<and> list_all isDigit big \<and> 2 ^ 63 - 1 < decimal big"
  define tail where "tail = ws1 @ [sg] @ ws2 @ big @ ws3 @ ''m'' @ rest"
  define off where
    "off = ws1 @ [sg] @ ws2 @ big @ ws3 @ ''m'' @ takeWhile (\<lambda>c. c \<noteq> CHR 0x0A) rest"
  have m: "matchOffset tail = Some (off, [sg], big)"
    unfolding tail_def off_def using big
    by (intro matchOffset_wellformed ws1 ws2 ws3 sg) simp_all
  have offne: "off \<noteq> []" by (simp add: off_def)
  have groups: "FindStringSubmatch (Time (color\<lparr>Time := kw @ tail\<rparr>))
                  = [kw @ off, [], kw @ off, kw, off, [sg], big]"
    using FindStringSubmatch_keyword [OF kw, of tail] m by simp
  have atoi: "Atoi big = Inl (NumError big)"
    using big by (intro Atoi_overflow) simp_all
  show "AsTimestamp2 (color\<lparr>Time := kw @ ws1 @ [sg] @ ws2 @ big @ ws3 @ ''m'' @ rest\<rparr>)
              referenceTime sunrise sunset
            = Done (Inl (NumError big))"
    using AsTimestamp2_groups_offset [OF groups offne, of referenceTime sunrise sunset]
    by (simp add: atoi tail_def)
qed

text \<open>
  "sunset - 30minutes" with sunset at 20:00 resolves to 19:30, and
  "sunset - 99999999999999999999minutes" returns the error of \<open>strconv.Atoi\<close>.
\<close>

theorem AsTimestamp2_sun_offset_witness:
  "list_all isSpace '' '' \<and> list_all isDigit ''30'' \<and> decimal ''30'' \<le> 153722867
   \<and> AsTimestamp2 (anchor ''sunset'' 5000 100) testDate mockSunrise mockSunset
       = Done (Inr (\<lparr>Time_ts = mockSunset, ColorTemperature_ts = 5000,
                      Brightness_ts = 100\<rparr>, Sunset))
   \<and> AsTimestamp2 (anchor ''sunset - 30minutes'' 5000 100) testDate mockSunrise mockSunset
       = Done (Inr (\<lparr>Time_ts = Add mockSunset (- (30 * time_Minute)),
                      ColorTemperature_ts = 5000, Brightness_ts = 100\<rparr>, Sunset))
   \<and> Add mockSunset (- (30 * time_Minute)) = time_Date 2021 4 28 19 30 0 0 0
   \<and> list_all isDigit ''99999999999999999999''
   \<and> 2 ^ 63 - 1 < decimal ''99999999999999999999''
   \<and> AsTimestamp2 (anchor ''sunset - 99999999999999999999minutes'' 5000 100)
         testDate mockSunrise mockSunset
       = Done (Inl (NumError ''99999999999999999999''))"
proof -
  have k: "''sunset'' = ''sunrise'' \<or> ''sunset'' = ''sunset''" by simp
  have sp: "list_all isSpace '' ''" and sp0: "list_all isSpace []"
    by (simp_all add: isSpace_def)
  have sg: "CHR ''-'' = CHR ''+'' \<or> CHR ''-'' = CHR ''-''" by simp
  have ne: "''30'' \<noteq> []" by simp
  have dg: "list_all isDigit ''30''" by (simp add: isDigit_def)
  have d: "decimal ''30'' = 30" by (simp add: decimal_def digitVal_def)
  have bd: "decimal ''30'' \<le> 153722867" by (simp add: d)
  have t: "Add mockSunset (- (30 * time_Minute)) = time_Date 2021 4 28 19 30 0 0 0"
    by code_simp
  have bigd: "list_all isDigit ''99999999999999999999''" by (simp add: isDigit_def)
  have bigv: "2 ^ 63 - 1 < decimal ''99999999999999999999''"
    by (simp add: decimal_def digitVal_def)
  have bigh: "''99999999999999999999'' \<noteq> [] \<and> list_all isDigit ''99999999999999999999''
                \<and> 2 ^ 63 - 1 < decimal ''99999999999999999999''"
    using bigd bigv by simp
  note inst = AsTimestamp2_sun_offset
    [where kw = "''sunset''" and ?ws1.0 = "'' ''" and ?ws2.0 = "'' ''" and ?ws3.0 = "[]"
       and sg = "CHR ''-''" and ds = "''30''" and color = "anchor [] 5000 100"
       and rest = "''inutes''" and referenceTime = testDate and sunrise = mockSunrise
       and sunset = mockSunset, OF k sp sp sp0 sg ne dg bd]
  have big: "AsTimestamp2 (anchor ''sunset - 99999999999999999999minutes'' 5000 100)
         testDate mockSunrise mockSunset
       = Done (Inl (NumError ''99999999999999999999''))"
    using inst [THEN conjunct2, THEN conjunct2, THEN spec, THEN mp, OF bigh]
    by (simp add: anchor_def)
  show ?thesis using inst sp dg bd d t bigd bigv big by (simp add: anchor_def)
qed

section \<open>The scenario of the test\<close>

text \<open>
  Claim C7 (as stated, refuted). The eight entries the scenario lists as the schedule are
  in fact the eight resolved points. Taken as the schedule, with sunrise 07:30 and
  sunset 20:00 on 2021-04-28, they resolve to ten points, seven of them clamped, not to
  the eight points the scenario expects.
\<close>

theorem scenario_counterexample:
  "ComputeNewStyleSchedule scenarioSchedule mockSunrise mockSunset testDate
     = Done (scenarioTimes, None)
   \<and> length scenarioTimes = 10
   \<and> ComputeNewStyleSchedule scenarioSchedule mockSunrise mockSunset testDate
     \<noteq> Done (expectedTimes, None)"
  by code_simp

text \<open>
  Claim C7 (amended). The unified schedule of the six anchors 04:00 (2000 K, 60), sunrise+0m
  (2700 K, 60), sunrise+30m (5000 K, 100), sunset-30m (5000 K, 100), sunset+0m (2700 K, 80)
  and 22:00 (2000 K, 70), with sunrise 07:30 and sunset 20:00 on 2021-04-28 in UTC,
  resolves to exactly the eight points the test expects: 22:00 of the previous day,
  then 04:00, 07:30, 08:00, 19:30, 20:00 and 22:00 of the day, then 04:00 of the next day,
  each with its declared colour temperature and brightness. Every step is strictly
  increasing, and every same-day point is the anchor as resolved: nothing is clamped.
\<close>

theorem fixture_resolves_to_expectedTimes:
  "ComputeNewStyleSchedule fixtureSchedule mockSunrise mockSunset testDate
     = Done (expectedTimes, None)
   \<and> sorted_wrt Before (map Time_ts expectedTimes)
   \<and> map (\<lambda>a. AsTimestamp2 a testDate mockSunrise mockSunset) fixtureSchedule
       = map (\<lambda>r. Done (Inr r))
           (zip (butlast (tl expectedTimes))
                [FixedTimePoint, Sunrise, Sunrise, Sunset, Sunset, FixedTimePoint])"
  by code_simp

section \<open>Selecting the schedule of a light\<close>

text \<open>
  Claim C8 (as stated, refuted). A schedule whose unified list is empty does not make
  the resolution fail: lightScheduleForDay takes the legacy path and returns the
  before-sunrise and after-sunset points with no error.
\<close>

theorem lightScheduleForDay_empty_unified_counterexample:
  "lightScheduleForDay (configuration_of [lightSchedule_of [1] []]) 1 testDate
       (MockSunStateCalculator mockSunrise mockSunset)
     = Done (\<lparr>endOfDay = time_Date 2021 4 28 23 59 59 59 0,
              sunrise_sched = point 2021 4 28 7 30 2750 100,
              sunset_sched = point 2021 4 28 20 0 2750 100,
              times_sched = [],
              beforeSunrise = [point 2021 4 28 4 0 2000 60],
              afterSunset = [point 2021 4 28 20 0 2300 80, point 2021 4 28 22 0 2000 60],
              enableWhenLightsAppear = True\<rparr>, None)"
  by code_simp

text \<open>
  Claim C8 (amended). When the schedule selected for the light has an empty unified
  list, lightScheduleForDay succeeds on the legacy path: the unified sequence stays
  empty and the enable-when-lights-appear flag is copied. The before-sunrise sequence
  holds, in the declared order, one point for each before-sunrise entry whose time string
  \<open>time.Parse\<close> accepts under the layout 15:04, and nothing for the other entries, which
  are skipped; the after-sunset sequence likewise. The point of a kept entry is the one
  AsTimestamp returns: the parsed hour and minute on the calendar day of the date, in the
  date's location, with the entry's colour temperature and brightness.
\<close>

theorem lightScheduleForDay_empty_unified_legacy:
  assumes "findLightSchedule (Schedules configuration) light = Some lightSchedule"
    and "Schedule lightSchedule = []"
  shows "\<exists>schedule.
      lightScheduleForDay configuration light date sunStateCalculator = Done (schedule, None)
    \<and> times_sched schedule = []
    \<and> beforeSunrise schedule = legacyTimestamps (BeforeSunrise lightSchedule) date []
    \<and> afterSunset schedule = legacyTimestamps (AfterSunset lightSchedule) date []
    \<and> enableWhenLightsAppear schedule = EnableWhenLightsAppear lightSchedule
    \<and> beforeSunrise schedule =
        map (\<lambda>candidate. projr (AsTimestamp candidate date))
          (filter (\<lambda>candidate. \<not> isl (time_Parse (Time candidate)))
             (BeforeSunrise lightSchedule))
    \<and> afterSunset schedule =
        map (\<lambda>candidate. projr (AsTimestamp candidate date))
          (filter (\<lambda>candidate. \<not> isl (time_Parse (Time candidate)))
             (AfterSunset lightSchedule))
    \<and> list_all (\<lambda>candidate.
          AsTimestamp candidate date =
            Inr \<lparr>Time_ts = (case Date date of (yr, mth, day) \<Rightarrow>
                     time_Date yr mth day (Hour (projr (time_Parse (Time candidate))))
                       (Minute (projr (time_Parse (Time candidate))))
                       (Second (projr (time_Parse (Time candidate)))) 0 (loc date)),
                 ColorTemperature_ts = ColorTemperature candidate,
                 Brightness_ts = Brightness candidate\<rparr>)
        (filter (\<lambda>candidate. \<not> isl (time_Parse (Time candidate)))
           (BeforeSunrise lightSchedule @ AfterSunset lightSchedule))"
proof -
  have pts: "list_all (\<lambda>candidate.
          AsTimestamp candidate date =
            Inr \<lparr>Time_ts = (case Date date of (yr, mth, day) \<Rightarrow>
                     time_Date yr mth day (Hour (projr (time_Parse (Time candidate))))
                       (Minute (projr (time_Parse (Time candidate))))
                       (Second (projr (time_Parse (Time candidate)))) 0 (loc date)),
                 ColorTemperature_ts = ColorTemperature candidate,
                 Brightness_ts = Brightness candidate\<rparr>)
        (filter (\<lambda>candidate. \<not> isl (time_Parse (Time candidate))) cs)" for cs
  proof -
    have "AsTimestamp candidate date =
            Inr \<lparr>Time_ts = (case Date date of (yr, mth, day) \<Rightarrow>
                     time_Date yr mth day (Hour (projr (time_Parse (Time candidate))))
                       (Minute (projr (time_Parse (Time candidate))))
                       (Second (projr (time_Parse (Time candidate)))) 0 (loc date)),
                 ColorTemperature_ts = ColorTemperature candidate,
                 Brightness_ts = Brightness candidate\<rparr>"
      if "\<not> isl (time_Parse (Time candidate))" for candidate
    proof -
      from that obtain t where t: "time_Parse (Time candidate) = Inr t"
        by (cases "time_Parse (Time candidate)") auto
      show ?thesis using AsTimestamp_point [OF t, of date] by (simp add: t)
    qed
    then show ?thesis by (simp add: list_all_iff)
  qed
  show ?thesis
    using assms pts [of "BeforeSunrise lightSchedule @ AfterSunset lightSchedule"]
    by (simp add: lightScheduleForDay_def zeroSchedule_def legacyTimestamps_filter
                  AsTimestamp_accepts
             split: prod.splits)
qed

text \<open>
  In the legacy schedule of light 5 the entries "sunrise", "25:00" and "bedtime" are
  skipped and the four clock times are kept in order.
\<close>

theorem lightScheduleForDay_empty_unified_legacy_witness:
  "findLightSchedule (Schedules (configuration_of [legacySchedule])) 5 = Some legacySchedule
   \<and> Schedule legacySchedule = []
   \<and> lightScheduleForDay (configuration_of [legacySchedule]) 5 testDate
          (MockSunStateCalculator mockSunrise mockSunset)
       = Done (\<lparr>endOfDay = time_Date 2021 4 28 23 59 59 59 0,
                sunrise_sched = point 2021 4 28 7 30 2750 100,
                sunset_sched = point 2021 4 28 20 0 2750 100,
                times_sched = [],
                beforeSunrise = [point 2021 4 28 4 0 2000 60, point 2021 4 28 6 30 2300 70],
                afterSunset = [point 2021 4 28 20 0 2300 80, point 2021 4 28 22 0 2000 60],
                enableWhenLightsAppear = True\<rparr>, None)
   \<and> map (\<lambda>candidate. projr (AsTimestamp candidate testDate))
          (filter (\<lambda>candidate. \<not> isl (time_Parse (Time candidate)))
             (BeforeSunrise legacySchedule))
       = [point 2021 4 28 4 0 2000 60, point 2021 4 28 6 30 2300 70]
   \<and> map (\<lambda>candidate. projr (AsTimestamp candidate testDate))
          (filter (\<lambda>candidate. \<not> isl (time_Parse (Time candidate)))
             (AfterSunset legacySchedule))
       = [point 2021 4 28 20 0 2300 80, point 2021 4 28 22 0 2000 60]
   \<and> isl (time_Parse ''sunrise'') \<and> isl (time_Parse ''25:00'') \<and> isl (time_Parse ''bedtime'')"
proof -
  have f: "findLightSchedule (Schedules (configuration_of [legacySchedule])) 5
             = Some legacySchedule"
    by (simp add: configuration_of_def legacySchedule_def)
  have e: "Schedule legacySchedule = []"
    by (simp add: legacySchedule_def)
  have b: "map (\<lambda>candidate. projr (AsTimestamp candidate testDate))
          (filter (\<lambda>candidate. \<not> isl (time_Parse (Time candidate)))
             (BeforeSunrise legacySchedule))
       = [point 2021 4 28 4 0 2000 60, point 2021 4 28 6 30 2300 70]"
    by code_simp
  have a: "map (\<lambda>candidate. projr (AsTimestamp candidate testDate))
          (filter (\<lambda>candidate. \<not> isl (time_Parse (Time candidate)))
             (AfterSunset legacySchedule))
       = [point 2021 4 28 20 0 2300 80, point 2021 4 28 22 0 2000 60]"
    by code_simp
  have r: "isl (time_Parse ''sunrise'')" "isl (time_Parse ''25:00'')"
          "isl (time_Parse ''bedtime'')"
    by code_simp+
  have v: "lightScheduleForDay (configuration_of [legacySchedule]) 5 testDate
          (MockSunStateCalculator mockSunrise mockSunset)
       = Done (\<lparr>endOfDay = time_Date 2021 4 28 23 59 59 59 0,
                sunrise_sched = point 2021 4 28 7 30 2750 100,
                sunset_sched = point 2021 4 28 20 0 2750 100,
                times_sched = [],
                beforeSunrise = [point 2021 4 28 4 0 2000 60, point 2021 4 28 6 30 2300 70],
                afterSunset = [point 2021 4 28 20 0 2300 80, point 2021 4 28 22 0 2000 60],
                enableWhenLightsAppear = True\<rparr>, None)"
  proof -
    from lightScheduleForDay_empty_unified_legacy
      [OF f e, of testDate "MockSunStateCalculator mockSunrise mockSunset"]
    obtain schedule where
      s: "lightScheduleForDay (configuration_of [legacySchedule]) 5 testDate
            (MockSunStateCalculator mockSunrise mockSunset) = Done (schedule, None)"
      and bs: "beforeSunrise schedule =
        map (\<lambda>candidate. projr (AsTimestamp candidate testDate))
          (filter (\<lambda>candidate. \<not> isl (time_Parse (Time candidate)))
             (BeforeSunrise legacySchedule))"
      by blast
    have full: "lightScheduleForDay (configuration_of [legacySchedule]) 5 testDate
          (MockSunStateCalculator mockSunrise mockSunset)
       = Done (\<lparr>endOfDay = time_Date 2021 4 28 23 59 59 59 0,
                sunrise_sched = point 2021 4 28 7 30 2750 100,
                sunset_sched = point 2021 4 28 20 0 2750 100,
                times_sched = [],
                beforeSunrise = [point 2021 4 28 4 0 2000 60, point 2021 4 28 6 30 2300 70],
                afterSunset = [point 2021 4 28 20 0 2300 80, point 2021 4 28 22 0 2000 60],
                enableWhenLightsAppear = True\<rparr>, None)"
      by code_simp
    with s bs b show ?thesis by simp
  qed
  show ?thesis using f e b a r v by blast
qed

text \<open>
  Claim C9. lightScheduleForDay takes the first schedule, in configuration order, whose
  associated device IDs contain the light. Its result is then built from that schedule
  and from no other: the sunrise and sunset points carry that schedule's default colour
  temperature and brightness, and the sequences are those of its unified list where that
  is non-empty and of its legacy lists otherwise; it is the result for a configuration
  holding that schedule alone, and never the not-associated error. When no schedule
  lists the light, it returns the not-associated error, and the schedule returned with
  it holds no resolved point.
\<close>

theorem lightScheduleForDay_first_match:
  "((\<forall>c\<in>set (Schedules configuration). light \<notin> set (AssociatedDeviceIDs c)) \<longrightarrow>
      (\<exists>schedule. lightScheduleForDay configuration light date sunStateCalculator
                     = Done (schedule, Some (NotAssociated light))
         \<and> times_sched schedule = [] \<and> beforeSunrise schedule = []
         \<and> afterSunset schedule = []))
   \<and> (\<forall>pre c post.
         Schedules configuration = pre @ c # post
         \<and> (\<forall>p\<in>set pre. light \<notin> set (AssociatedDeviceIDs p))
         \<and> light \<in> set (AssociatedDeviceIDs c) \<longrightarrow>
           lightScheduleForDay configuration light date sunStateCalculator
             = lightScheduleForDay (configuration\<lparr>Schedules := [c]\<rparr>) light date
                 sunStateCalculator
         \<and> lightScheduleForDay configuration light date sunStateCalculator
             = (let sunriseTime = CalculateSunrise sunStateCalculator date
                                    (Latitude (Location configuration))
                                    (Longitude (Location configuration));
                    sunsetTime = CalculateSunset sunStateCalculator date
                                   (Latitude (Location configuration))
                                   (Longitude (Location configuration));
                    schedule =
                      \<lparr>endOfDay = (case Date date of (yr, mth, dy) \<Rightarrow>
                                     time_Date yr mth dy 23 59 59 59 (loc date)),
                       sunrise_sched =
                         \<lparr>Time_ts = sunriseTime,
                          ColorTemperature_ts = DefaultColorTemperature c,
                          Brightness_ts = DefaultBrightness c\<rparr>,
                       sunset_sched =
                         \<lparr>Time_ts = sunsetTime,
                          ColorTemperature_ts = DefaultColorTemperature c,
                          Brightness_ts = DefaultBrightness c\<rparr>,
                       times_sched = [], beforeSunrise = [], afterSunset = [],
                       enableWhenLightsAppear = False\<rparr>
                in if Schedule c \<noteq> [] then
                     (case ComputeNewStyleSchedule (Schedule c) sunriseTime sunsetTime date of
                        Panic \<Rightarrow> Panic
                      | Done (newScheduleTimes, Some err) \<Rightarrow> Done (schedule, Some err)
                      | Done (newScheduleTimes, None) \<Rightarrow>
                          Done (schedule\<lparr>times_sched := newScheduleTimes\<rparr>, None))
                   else Done (schedule
                          \<lparr>beforeSunrise := legacyTimestamps (BeforeSunrise c) date [],
                           afterSunset := legacyTimestamps (AfterSunset c) date [],
                           enableWhenLightsAppear := EnableWhenLightsAppear c\<rparr>, None))
         \<and> (\<forall>schedule. lightScheduleForDay configuration light date sunStateCalculator
                \<noteq> Done (schedule, Some (NotAssociated light))))"
proof (intro conjI impI allI)
  assume "\<forall>c\<in>set (Schedules configuration). light \<notin> set (AssociatedDeviceIDs c)"
  then have "findLightSchedule (Schedules configuration) light = None"
    by (rule findLightSchedule_none)
  then show "\<exists>schedule. lightScheduleForDay configuration light date sunStateCalculator
                     = Done (schedule, Some (NotAssociated light))
         \<and> times_sched schedule = [] \<and> beforeSunrise schedule = []
         \<and> afterSunset schedule = []"
    by (simp add: lightScheduleForDay_def zeroSchedule_def split: prod.splits)
next
  fix pre c post
  assume a: "Schedules configuration = pre @ c # post
         \<and> (\<forall>p\<in>set pre. light \<notin> set (AssociatedDeviceIDs p))
         \<and> light \<in> set (AssociatedDeviceIDs c)"
  then have sel: "findLightSchedule (Schedules configuration) light = Some c"
    using findLightSchedule_first [of pre light c post] by simp
  moreover have "findLightSchedule [c] light = Some c"
    using a by (simp add: containsInt_iff)
  ultimately show "lightScheduleForDay configuration light date sunStateCalculator
             = lightScheduleForDay (configuration\<lparr>Schedules := [c]\<rparr>) light date
                 sunStateCalculator"
    by (simp add: lightScheduleForDay_def)
  show "lightScheduleForDay configuration light date sunStateCalculator
             = (let sunriseTime = CalculateSunrise sunStateCalculator date
                                    (Latitude (Location configuration))
                                    (Longitude (Location configuration));
                    sunsetTime = CalculateSunset sunStateCalculator date
                                   (Latitude (Location configuration))
                                   (Longitude (Location configuration));
                    schedule =
                      \<lparr>endOfDay = (case Date date of (yr, mth, dy) \<Rightarrow>
                                     time_Date yr mth dy 23 59 59 59 (loc date)),
                       sunrise_sched =
                         \<lparr>Time_ts = sunriseTime,
                          ColorTemperature_ts = DefaultColorTemperature c,
                          Brightness_ts = DefaultBrightness c\<rparr>,
                       sunset_sched =
                         \<lparr>Time_ts = sunsetTime,
                          ColorTemperature_ts = DefaultColorTemperature c,
                          Brightness_ts = DefaultBrightness c\<rparr>,
                       times_sched = [], beforeSunrise = [], afterSunset = [],
                       enableWhenLightsAppear = False\<rparr>
                in if Schedule c \<noteq> [] then
                     (case ComputeNewStyleSchedule (Schedule c) sunriseTime sunsetTime date of
                        Panic \<Rightarrow> Panic
                      | Done (newScheduleTimes, Some err) \<Rightarrow> Done (schedule, Some err)
                      | Done (newScheduleTimes, None) \<Rightarrow>
                          Done (schedule\<lparr>times_sched := newScheduleTimes\<rparr>, None))
                   else Done (schedule
                          \<lparr>beforeSunrise := legacyTimestamps (BeforeSunrise c) date [],
                           afterSunset := legacyTimestamps (AfterSunset c) date [],
                           enableWhenLightsAppear := EnableWhenLightsAppear c\<rparr>, None))"
    using sel
    by (auto simp: lightScheduleForDay_def zeroSchedule_def Let_def
             split: prod.splits exec.splits option.splits)
  fix schedule
  show "lightScheduleForDay configuration light date sunStateCalculator
                \<noteq> Done (schedule, Some (NotAssociated light))"
    using sel
    by (auto simp: lightScheduleForDay_def Let_def
             split: prod.splits exec.splits option.splits if_splits
             dest: ComputeNewStyleSchedule_error_kind)
qed

text \<open>
  Light 7 is listed nowhere. Light 1 is listed by the second and by the third schedule and
  gets the second, a legacy one with defaults 3000 and 90. Light 3 gets the first, whose
  unified list resolves to the expected points of the test.
\<close>

theorem lightScheduleForDay_first_match_witness:
  "(\<exists>schedule. lightScheduleForDay (configuration_of threeSchedules) 7 testDate
                  (MockSunStateCalculator mockSunrise mockSunset)
                 = Done (schedule, Some (NotAssociated 7))
       \<and> times_sched schedule = [] \<and> beforeSunrise schedule = []
       \<and> afterSunset schedule = [])
   \<and> lightScheduleForDay (configuration_of threeSchedules) 1 testDate
         (MockSunStateCalculator mockSunrise mockSunset)
       = lightScheduleForDay
           ((configuration_of threeSchedules)\<lparr>Schedules := [secondSchedule]\<rparr>)
           1 testDate (MockSunStateCalculator mockSunrise mockSunset)
   \<and> lightScheduleForDay (configuration_of threeSchedules) 1 testDate
         (MockSunStateCalculator mockSunrise mockSunset)
       = Done (\<lparr>endOfDay = time_Date 2021 4 28 23 59 59 59 0,
                sunrise_sched = point 2021 4 28 7 30 3000 90,
                sunset_sched = point 2021 4 28 20 0 3000 90,
                times_sched = [],
                beforeSunrise = [point 2021 4 28 5 15 2100 40],
                afterSunset = [],
                enableWhenLightsAppear = False\<rparr>, None)
   \<and> lightScheduleForDay (configuration_of threeSchedules) 3 testDate
         (MockSunStateCalculator mockSunrise mockSunset)
       = Done (\<lparr>endOfDay = time_Date 2021 4 28 23 59 59 59 0,
                sunrise_sched = point 2021 4 28 7 30 2750 100,
                sunset_sched = point 2021 4 28 20 0 2750 100,
                times_sched = expectedTimes,
                beforeSunrise = [], afterSunset = [],
                enableWhenLightsAppear = False\<rparr>, None)"
proof -
  have none: "\<forall>c\<in>set (Schedules (configuration_of threeSchedules)).
                 7 \<notin> set (AssociatedDeviceIDs c)"
    by (simp add: configuration_of_def threeSchedules_def lightSchedule_of_def
                  secondSchedule_def)
  have first: "Schedules (configuration_of threeSchedules)
                 = [lightSchedule_of [2, 3] fixtureSchedule] @ secondSchedule
                     # [lightSchedule_of [1] scenarioSchedule]
               \<and> (\<forall>p\<in>set [lightSchedule_of [2, 3] fixtureSchedule].
                     1 \<notin> set (AssociatedDeviceIDs p))
               \<and> 1 \<in> set (AssociatedDeviceIDs secondSchedule)"
    by (simp add: configuration_of_def threeSchedules_def lightSchedule_of_def
                  secondSchedule_def)
  have third: "Schedules (configuration_of threeSchedules)
                 = [] @ lightSchedule_of [2, 3] fixtureSchedule
                     # [secondSchedule, lightSchedule_of [1] scenarioSchedule]
               \<and> (\<forall>p\<in>set []. 3 \<notin> set (AssociatedDeviceIDs p))
               \<and> 3 \<in> set (AssociatedDeviceIDs (lightSchedule_of [2, 3] fixtureSchedule))"
    by (simp add: configuration_of_def threeSchedules_def lightSchedule_of_def)
  note inst = lightScheduleForDay_first_match
    [of "configuration_of threeSchedules" _ testDate
        "MockSunStateCalculator mockSunrise mockSunset"]
  have one: "lightScheduleForDay ((configuration_of threeSchedules)
               \<lparr>Schedules := [secondSchedule]\<rparr>) 1 testDate
               (MockSunStateCalculator mockSunrise mockSunset)
       = Done (\<lparr>endOfDay = time_Date 2021 4 28 23 59 59 59 0,
                sunrise_sched = point 2021 4 28 7 30 3000 90,
                sunset_sched = point 2021 4 28 20 0 3000 90,
                times_sched = [],
                beforeSunrise = [point 2021 4 28 5 15 2100 40],
                afterSunset = [],
                enableWhenLightsAppear = False\<rparr>, None)"
    by code_simp
  have three: "lightScheduleForDay ((configuration_of threeSchedules)
               \<lparr>Schedules := [lightSchedule_of [2, 3] fixtureSchedule]\<rparr>) 3 testDate
               (MockSunStateCalculator mockSunrise mockSunset)
       = Done (\<lparr>endOfDay = time_Date 2021 4 28 23 59 59 59 0,
                sunrise_sched = point 2021 4 28 7 30 2750 100,
                sunset_sched = point 2021 4 28 20 0 2750 100,
                times_sched = expectedTimes,
                beforeSunrise = [], afterSunset = [],
                enableWhenLightsAppear = False\<rparr>, None)"
    by code_simp
  have e1: "lightScheduleForDay (configuration_of threeSchedules) 1 testDate
         (MockSunStateCalculator mockSunrise mockSunset)
       = lightScheduleForDay
           ((configuration_of threeSchedules)\<lparr>Schedules := [secondSchedule]\<rparr>)
           1 testDate (MockSunStateCalculator mockSunrise mockSunset)"
    using inst [of 1] first by blast
  have e3: "lightScheduleForDay (configuration_of threeSchedules) 3 testDate
         (MockSunStateCalculator mockSunrise mockSunset)
       = lightScheduleForDay
           ((configuration_of threeSchedules)
              \<lparr>Schedules := [lightSchedule_of [2, 3] fixtureSchedule]\<rparr>)
           3 testDate (MockSunStateCalculator mockSunrise mockSunset)"
    using inst [of 3] third by blast
  have e7: "\<exists>schedule. lightScheduleForDay (configuration_of threeSchedules) 7 testDate
                  (MockSunStateCalculator mockSunrise mockSunset)
                 = Done (schedule, Some (NotAssociated 7))
       \<and> times_sched schedule = [] \<and> beforeSunrise schedule = []
       \<and> afterSunset schedule = []"
    using inst [of 7] none by blast
  show ?thesis using e7 e1 e3 one three by simp
qed

section \<open>Strings accepted outside the documented formats\<close>

text \<open>
  Claim C10 (as stated, refuted). Not every string that contains sunrise or sunset resolves
  to the plain supplied instant. In "1:00 sunset" the leftmost match is the clock time:
  \<open>time.Parse\<close> is applied to the whole string and its error is returned. In
  "xsunset+5m" a well-formed offset follows the keyword and is applied.
\<close>

theorem AsTimestamp2_keyword_substring_counterexample:
  "AsTimestamp2 (anchor ''1:00 sunset'' 2700 80) testDate mockSunrise mockSunset
     = Done (Inl (ParseError ''1:00 sunset''))
   \<and> AsTimestamp2 (anchor ''xsunset+5m'' 2700 80) testDate mockSunrise mockSunset
     = Done (Inr (\<lparr>Time_ts = Add mockSunset (5 * time_Minute),
                    ColorTemperature_ts = 2700, Brightness_ts = 80\<rparr>, Sunset))
   \<and> Add mockSunset (5 * time_Minute) \<noteq> mockSunset"
  by code_simp

text \<open>
  Claim C10 (amended). There are strings outside the documented formats that AsTimestamp2
  accepts without error: the expression is not anchored and its offset group is
  optional, so every string in which the leftmost match of the expression is the keyword
  sunrise or sunset, and in which no well-formed offset follows that keyword, resolves to
  the plain supplied sunrise (respectively sunset) instant, whatever stands before and
  after the keyword. "sunset + 45" and "xsunsetxx" are such strings: neither is of a
  documented format and both resolve to the plain sunset.
\<close>

theorem AsTimestamp2_keyword_substring:
  "(\<forall>p kw tail.
       (kw = ''sunrise'' \<or> kw = ''sunset'')
       \<and> (\<forall>i<length p. matchHere (drop i (p @ kw @ tail)) = None)
       \<and> matchOffset tail = None \<longrightarrow>
         AsTimestamp2 \<lparr>Time = p @ kw @ tail, ColorTemperature = c, Brightness = b\<rparr>
           referenceTime sunrise sunset
         = Done (Inr (\<lparr>Time_ts = (if kw = ''sunrise'' then sunrise else sunset),
                        ColorTemperature_ts = c, Brightness_ts = b\<rparr>,
                      if kw = ''sunrise'' then Sunrise else Sunset)))
   \<and> \<not> documentedFormat ''sunset + 45''
   \<and> AsTimestamp2 \<lparr>Time = ''sunset + 45'', ColorTemperature = c, Brightness = b\<rparr>
         referenceTime sunrise sunset
       = Done (Inr (\<lparr>Time_ts = sunset, ColorTemperature_ts = c, Brightness_ts = b\<rparr>, Sunset))
   \<and> \<not> documentedFormat ''xsunsetxx''
   \<and> AsTimestamp2 \<lparr>Time = ''xsunsetxx'', ColorTemperature = c, Brightness = b\<rparr>
         referenceTime sunrise sunset
       = Done (Inr (\<lparr>Time_ts = sunset, ColorTemperature_ts = c, Brightness_ts = b\<rparr>, Sunset))"
proof -
  have general: "AsTimestamp2 \<lparr>Time = p @ kw @ tail, ColorTemperature = c, Brightness = b\<rparr>
           referenceTime sunrise sunset
         = Done (Inr (\<lparr>Time_ts = (if kw = ''sunrise'' then sunrise else sunset),
                        ColorTemperature_ts = c, Brightness_ts = b\<rparr>,
                      if kw = ''sunrise'' then Sunrise else Sunset))"
    if kw: "kw = ''sunrise'' \<or> kw = ''sunset''"
      and leftmost: "\<forall>i<length p. matchHere (drop i (p @ kw @ tail)) = None"
      and nooffset: "matchOffset tail = None"
    for p kw tail
  proof -
    have "FindStringSubmatch (p @ kw @ tail) = FindStringSubmatch (kw @ tail)"
      by (rule FindStringSubmatch_skip [OF leftmost])
    also have "\<dots> = [kw, [], kw, kw, [], [], []]"
      using FindStringSubmatch_keyword [OF kw, of tail] nooffset by simp
    finally have "FindStringSubmatch (Time \<lparr>Time = p @ kw @ tail, ColorTemperature = c,
                      Brightness = b\<rparr>) = [kw, [], kw, kw, [], [], []]"
      by simp
    moreover have "kw \<noteq> []" using kw by auto
    ultimately show ?thesis
      using AsTimestamp2_groups_plain by fastforce
  qed
  have g: "\<not> documentedFormat ''sunset + 45''" "\<not> documentedFormat ''xsunsetxx''"
    by code_simp+
  have o1: "matchOffset '' + 45'' = None" by code_simp
  have o2: "matchOffset ''xx'' = None" by code_simp
  have h: "matchHere ''xsunsetxx'' = None" by code_simp
  have l1: "\<forall>i<length []. matchHere (drop i ([] @ ''sunset'' @ '' + 45'')) = None"
    by simp
  have l2: "\<forall>i<length ''x''. matchHere (drop i (''x'' @ ''sunset'' @ ''xx'')) = None"
    using h by simp
  have k: "''sunset'' = ''sunrise'' \<or> ''sunset'' = ''sunset''" by simp
  have x1: "AsTimestamp2 \<lparr>Time = ''sunset + 45'', ColorTemperature = c, Brightness = b\<rparr>
         referenceTime sunrise sunset
       = Done (Inr (\<lparr>Time_ts = sunset, ColorTemperature_ts = c, Brightness_ts = b\<rparr>, Sunset))"
    using general [OF k l1 o1] by simp
  have x2: "AsTimestamp2 \<lparr>Time = ''xsunsetxx'', ColorTemperature = c, Brightness = b\<rparr>
         referenceTime sunrise sunset
       = Done (Inr (\<lparr>Time_ts = sunset, ColorTemperature_ts = c, Brightness_ts = b\<rparr>, Sunset))"
    using general [OF k l2 o2] by simp
  show ?thesis using general g x1 x2 by blast
qed

text \<open>"@sunrise!" is another such string: it resolves to the plain sunrise.\<close>

theorem AsTimestamp2_keyword_substring_witness:
  "matchOffset ''!'' = None
   \<and> matchHere ''@sunrise!'' = None
   \<and> \<not> documentedFormat ''@sunrise!''
   \<and> AsTimestamp2 (anchor ''@sunrise!'' 2700 60) testDate mockSunrise mockSunset
       = Done (Inr (\<lparr>Time_ts = mockSunrise, ColorTemperature_ts = 2700, Brightness_ts = 60\<rparr>,
                    Sunrise))"
proof -
  have g: "\<not> documentedFormat ''@sunrise!''" by code_simp
  have o: "matchOffset ''!'' = None" by code_simp
  have h: "matchHere ''@sunrise!'' = None" by code_simp
  have l: "\<forall>i<length ''@''. matchHere (drop i (''@'' @ ''sunrise'' @ ''!'')) = None"
    using h by simp
  have k: "''sunrise'' = ''sunrise'' \<or> ''sunrise'' = ''sunset''" by simp
  have hyp: "(''sunrise'' = ''sunrise'' \<or> ''sunrise'' = ''sunset'')
       \<and> (\<forall>i<length ''@''. matchHere (drop i (''@'' @ ''sunrise'' @ ''!'')) = None)
       \<and> matchOffset ''!'' = None"
    using k l o by blast
  note inst = AsTimestamp2_keyword_substring
    [of 2700 60 testDate mockSunrise mockSunset]
  from inst hyp have "AsTimestamp2
      \<lparr>Time = ''@'' @ ''sunrise'' @ ''!'', ColorTemperature = 2700, Brightness = 60\<rparr>
      testDate mockSunrise mockSunset
    = Done (Inr (\<lparr>Time_ts = (if ''sunrise'' = ''sunrise'' then mockSunrise else mockSunset),
                   ColorTemperature_ts = 2700, Brightness_ts = 60\<rparr>,
                 if ''sunrise'' = ''sunrise'' then Sunrise else Sunset))"
    by blast
  then show ?thesis using g o h by (simp add: anchor_def)
qed

end
